theory Spec2Isabelle
  imports Main "HOL-Library.Sublist"
begin

section \<open>Strings\<close>

text \<open>
  A Python \<^verbatim>\<open>str\<close> is a sequence of Unicode code points, and \<^verbatim>\<open>len\<close> counts code
  points. A string is therefore a list of code points; \<open>str\<close> turns a literal of
  the theory into one.
\<close>

type_synonym pystr = "nat list"

definition str :: "string \<Rightarrow> pystr" where
  "str s = map of_char s"

section \<open>The plan store (database.py)\<close>

text \<open>
  \<^verbatim>\<open>TaskProgress\<close>: a task name and the list of dates on which the task was completed.
\<close>

record task_progress =
  task_name :: pystr
  progress :: "pystr list"

text \<open>
  A document of the \<^verbatim>\<open>health_plans\<close> collection, with the keys written by
  \<^verbatim>\<open>create_health_plan\<close>. Timestamps are clock readings, taken as integers.
\<close>

record plan_doc =
  doc_id :: pystr
  user_id :: pystr
  plan_name :: pystr
  condition :: pystr
  timeline_days :: int
  tasks :: "task_progress list"
  active :: bool
  created_at :: int
  updated_at :: int

text \<open>
  A document of the \<^verbatim>\<open>specialist_stats\<close> collection. The methods read every key but
  the name with \<^verbatim>\<open>.get(key, default)\<close>, so a key may be absent; \<^verbatim>\<open>daily_word_counts\<close>
  is a dictionary from dates to word counts.
\<close>

record stats_doc =
  stats_user_id :: pystr
  specialist_name :: pystr
  total_words_generated :: "int option"
  total_messages_sent :: "int option"
  last_activity :: "int option"
  daily_word_counts :: "(pystr \<rightharpoonup> int) option"

text \<open>
  The manager object with its two collections. A collection is \<open>None\<close> where the
  methods' guard (\<^verbatim>\<open>if self.plans_collection is None\<close>) applies, and the list of its
  documents in insertion order otherwise.
\<close>

record db_manager =
  plans_collection :: "plan_doc list option"
  specialist_stats_collection :: "stats_doc list option"

text \<open>
  A plan as \<^verbatim>\<open>get_active_plans\<close> hands it to its callers: the dictionary with the keys
  \<^verbatim>\<open>id\<close>, \<^verbatim>\<open>plan_name\<close>, \<^verbatim>\<open>condition\<close>, \<^verbatim>\<open>timeline_days\<close>, \<^verbatim>\<open>tasks\<close>, \<^verbatim>\<open>created_at\<close>
  and \<^verbatim>\<open>updated_at\<close>.
\<close>

record plan_view =
  plan_id :: pystr
  v_plan_name :: pystr
  v_condition :: pystr
  v_timeline_days :: int
  v_tasks :: "task_progress list"
  v_created_at :: int
  v_updated_at :: int

datatype mongo_error = DuplicateKeyError

definition default_user :: pystr where
  "default_user = str ''default_user''"

subsection \<open>The collection operations used by the methods\<close>

text \<open>\<^verbatim>\<open>find_one(filter)\<close>: the first document that satisfies the filter.\<close>

definition find_one :: "('a \<Rightarrow> bool) \<Rightarrow> 'a list \<Rightarrow> 'a option" where
  "find_one P docs = List.find P docs"

text \<open>
  \<^verbatim>\<open>update_one(filter, {"$set": ...})\<close>: the first document that satisfies the filter is
  replaced by its update; no document is added when none matches.
\<close>

fun update_one :: "('a \<Rightarrow> bool) \<Rightarrow> ('a \<Rightarrow> 'a) \<Rightarrow> 'a list \<Rightarrow> 'a list" where
  "update_one P f [] = []"
| "update_one P f (d # ds) = (if P d then f d # ds else d # update_one P f ds)"

text \<open>
  \<^verbatim>\<open>insert_one(doc)\<close>: the collection has a unique index on \<^verbatim>\<open>_id\<close>, and an insertion
  under an id already present raises.
\<close>

definition insert_one :: "plan_doc \<Rightarrow> plan_doc list \<Rightarrow> mongo_error + plan_doc list" where
  "insert_one d docs =
     (if doc_id d \<in> set (map doc_id docs) then Inl DuplicateKeyError else Inr (docs @ [d]))"

text \<open>
  \<^verbatim>\<open>find(filter, sort=[("created_at", -1)])\<close>: the documents that satisfy the filter,
  latest creation first (documents created at the same instant stay in insertion order).
\<close>

definition find_sorted :: "(plan_doc \<Rightarrow> bool) \<Rightarrow> plan_doc list \<Rightarrow> plan_doc list" where
  "find_sorted P docs = sort_key (\<lambda>d. - created_at d) (filter P docs)"

text \<open>The filter \<^verbatim>\<open>{"_id": plan_id, "user_id": "default_user"}\<close>.\<close>

definition id_user_filter :: "pystr \<Rightarrow> plan_doc \<Rightarrow> bool" where
  "id_user_filter pid d = (doc_id d = pid \<and> user_id d = default_user)"

text \<open>The filter \<^verbatim>\<open>{"_id": plan_id}\<close>.\<close>

definition id_filter :: "pystr \<Rightarrow> plan_doc \<Rightarrow> bool" where
  "id_filter pid d = (doc_id d = pid)"

text \<open>The filter \<^verbatim>\<open>{"user_id": "default_user", "active": True}\<close>.\<close>

definition active_filter :: "plan_doc \<Rightarrow> bool" where
  "active_filter d = (user_id d = default_user \<and> active d)"

subsection \<open>create_health_plan\<close>

text \<open>
  \<^verbatim>\<open>create_health_plan(plan_name, condition, timeline_days, tasks)\<close>. The two identifiers
  drawn by \<^verbatim>\<open>uuid.uuid4()\<close> are parameters: \<open>new_id\<close> is the \<^verbatim>\<open>_id\<close> of the document,
  \<open>dummy_id\<close> is the one returned when nothing is stored (no collection, or the
  insertion raised). \<open>now\<close> is the clock reading.
\<close>

definition create_health_plan ::
  "pystr \<Rightarrow> pystr \<Rightarrow> int \<Rightarrow> db_manager \<Rightarrow> pystr \<Rightarrow> pystr \<Rightarrow> int \<Rightarrow> pystr list
     \<Rightarrow> db_manager \<times> pystr" where
  "create_health_plan new_id dummy_id now self pname cond days task_names =
     (case plans_collection self of
        None \<Rightarrow> (self, dummy_id)
      | Some docs \<Rightarrow>
          (let task_objects = map (\<lambda>task. \<lparr>task_name = task, progress = []\<rparr>) task_names;
               plan = \<lparr>doc_id = new_id, user_id = default_user, plan_name = pname,
                        condition = cond, timeline_days = min days 7,
                        tasks = task_objects, active = True,
                        created_at = now, updated_at = now\<rparr>
           in case insert_one plan docs of
                Inl e \<Rightarrow> (self, dummy_id)
              | Inr docs' \<Rightarrow> (self\<lparr>plans_collection := Some docs'\<rparr>, new_id)))"

subsection \<open>get_active_plans\<close>

definition view_of :: "plan_doc \<Rightarrow> plan_view" where
  "view_of plan = \<lparr>plan_id = doc_id plan, v_plan_name = plan_name plan,
                     v_condition = condition plan, v_timeline_days = timeline_days plan,
                     v_tasks = tasks plan, v_created_at = created_at plan,
                     v_updated_at = updated_at plan\<rparr>"

definition get_active_plans :: "db_manager \<Rightarrow> plan_view list" where
  "get_active_plans self =
     (case plans_collection self of
        None \<Rightarrow> []
      | Some docs \<Rightarrow> map view_of (find_sorted active_filter docs))"

subsection \<open>deactivate_plan\<close>

text \<open>
  \<^verbatim>\<open>deactivate_plan(plan_id)\<close> returns \<^verbatim>\<open>result.modified_count > 0\<close>: whether a document
  matched the filter and was changed by the update.
\<close>

definition deactivate_plan :: "int \<Rightarrow> db_manager \<Rightarrow> pystr \<Rightarrow> db_manager \<times> bool" where
  "deactivate_plan now self pid =
     (case plans_collection self of
        None \<Rightarrow> (self, False)
      | Some docs \<Rightarrow>
          (let upd = (\<lambda>d. d\<lparr>active := False, updated_at := now\<rparr>);
               modified_count =
                 (case find_one (id_user_filter pid) docs of
                    None \<Rightarrow> (0::nat)
                  | Some d \<Rightarrow> if upd d = d then 0 else 1)
           in (self\<lparr>plans_collection := Some (update_one (id_user_filter pid) upd docs)\<rparr>,
               modified_count > 0)))"

subsection \<open>update_task_progress\<close>

text \<open>
  The loop over \<^verbatim>\<open>plan["tasks"]\<close>: the first task with the given name gets the date
  appended unless it is already there, and the loop stops at that task.
\<close>

fun append_date :: "pystr \<Rightarrow> pystr \<Rightarrow> task_progress list \<Rightarrow> task_progress list" where
  "append_date tn date [] = []"
| "append_date tn date (t # ts) =
     (if task_name t = tn
      then (if date \<in> set (progress t) then t else t\<lparr>progress := progress t @ [date]\<rparr>) # ts
      else t # append_date tn date ts)"

text \<open>
  \<^verbatim>\<open>update_task_progress(plan_id, task_name, date)\<close>; \<open>now\<close> is the clock reading
  written to \<^verbatim>\<open>updated_at\<close>. The result is the manager after the call and the
  returned boolean.
\<close>

definition update_task_progress ::
  "int \<Rightarrow> db_manager \<Rightarrow> pystr \<Rightarrow> pystr \<Rightarrow> pystr \<Rightarrow> db_manager \<times> bool" where
  "update_task_progress now self pid tn date =
     (case plans_collection self of
        None \<Rightarrow> (self, False)
      | Some docs \<Rightarrow>
          (case find_one (id_user_filter pid) docs of
             None \<Rightarrow> (self, False)
           | Some plan \<Rightarrow>
               (self\<lparr>plans_collection :=
                   Some (update_one (id_filter pid)
                           (\<lambda>d. d\<lparr>tasks := append_date tn date (tasks plan), updated_at := now\<rparr>)
                           docs)\<rparr>,
                True)))"

text \<open>
  The completion dates of a task as a caller reads them back: the plan found under
  the id, and in it the first task of the given name.
\<close>

definition completion_dates :: "db_manager \<Rightarrow> pystr \<Rightarrow> pystr \<Rightarrow> pystr list option" where
  "completion_dates self pid tn =
     (case plans_collection self of
        None \<Rightarrow> None
      | Some docs \<Rightarrow>
          (case find_one (id_user_filter pid) docs of
             None \<Rightarrow> None
           | Some plan \<Rightarrow> map_option progress (find_one (\<lambda>t. task_name t = tn) (tasks plan))))"


subsection \<open>Histories of store operations\<close>

text \<open>
  The three operations of the store that write to the plan collection, with their
  arguments, and a run of such operations, each at its own clock reading.
\<close>

datatype store_op =
  Create_health_plan pystr pystr pystr pystr int "pystr list"
| Update_task_progress pystr pystr pystr
| Deactivate_plan pystr

fun apply_op :: "db_manager \<Rightarrow> int \<times> store_op \<Rightarrow> db_manager" where
  "apply_op self (now, Create_health_plan new_id dummy_id pname cond days task_names) =
     fst (create_health_plan new_id dummy_id now self pname cond days task_names)"
| "apply_op self (now, Update_task_progress pid tn date) =
     fst (update_task_progress now self pid tn date)"
| "apply_op self (now, Deactivate_plan pid) = fst (deactivate_plan now self pid)"

definition run_ops :: "db_manager \<Rightarrow> (int \<times> store_op) list \<Rightarrow> db_manager" where
  "run_ops self ops = foldl apply_op self ops"

text \<open>The unique index on \<^verbatim>\<open>_id\<close>: no two documents of a collection share an id.\<close>

definition unique_ids :: "plan_doc list \<Rightarrow> bool" where
  "unique_ids docs = distinct (map doc_id docs)"

text \<open>
  A task keeps its name and every completion date it had; a plan keeps its id and its
  tasks, each with its dates; a collection keeps its plans, in their positions.
\<close>

definition task_grows :: "task_progress \<Rightarrow> task_progress \<Rightarrow> bool" where
  "task_grows t t' = (task_name t' = task_name t \<and> set (progress t) \<subseteq> set (progress t'))"

definition plan_grows :: "plan_doc \<Rightarrow> plan_doc \<Rightarrow> bool" where
  "plan_grows d d' = (doc_id d' = doc_id d \<and> list_all2 task_grows (tasks d) (tasks d'))"

definition completions_grow :: "plan_doc list \<Rightarrow> plan_doc list \<Rightarrow> bool" where
  "completions_grow docs docs' =
     (length docs \<le> length docs' \<and> list_all2 plan_grows docs (take (length docs) docs'))"

section \<open>Text operations\<close>

text \<open>
  \<^verbatim>\<open>str.lower()\<close>, as the interpreter computes it from the Unicode character database
  (version 14.0). Every code point is replaced by its lower-case form: one code
  point, but for U+0130 (304), whose form has two. The table lists the code points
  above 127 that change, as runs \<open>(lo, hi, step, target)\<close>: the code points
  \<open>lo\<close>, \<open>lo + step\<close>, ... up to \<open>hi\<close> go to \<open>target\<close>, \<open>target + step\<close>, ...
\<close>

definition lower_table :: "(nat \<times> nat \<times> nat \<times> nat) list" where
  "lower_table =
    [
     (192, 214, 1, 224), (216, 222, 1, 248), (256, 302, 2, 257), (306, 310, 2, 307),
     (313, 327, 2, 314), (330, 374, 2, 331), (376, 376, 1, 255), (377, 381, 2, 378),
     (385, 385, 1, 595), (386, 388, 2, 387), (390, 390, 1, 596), (391, 391, 1, 392),
     (393, 394, 1, 598), (395, 395, 1, 396), (398, 398, 1, 477), (399, 399, 1, 601),
     (400, 400, 1, 603), (401, 401, 1, 402), (403, 403, 1, 608), (404, 404, 1, 611),
     (406, 406, 1, 617), (407, 407, 1, 616), (408, 408, 1, 409), (412, 412, 1, 623),
     (413, 413, 1, 626), (415, 415, 1, 629), (416, 420, 2, 417), (422, 422, 1, 640),
     (423, 423, 1, 424), (425, 425, 1, 643), (428, 428, 1, 429), (430, 430, 1, 648),
     (431, 431, 1, 432), (433, 434, 1, 650), (435, 437, 2, 436), (439, 439, 1, 658),
     (440, 440, 1, 441), (444, 444, 1, 445), (452, 452, 1, 454), (453, 453, 1, 454),
     (455, 455, 1, 457), (456, 456, 1, 457), (458, 458, 1, 460), (459, 475, 2, 460),
     (478, 494, 2, 479), (497, 497, 1, 499), (498, 500, 2, 499), (502, 502, 1, 405),
     (503, 503, 1, 447), (504, 542, 2, 505), (544, 544, 1, 414), (546, 562, 2, 547),
     (570, 570, 1, 11365), (571, 571, 1, 572), (573, 573, 1, 410), (574, 574, 1, 11366),
     (577, 577, 1, 578), (579, 579, 1, 384), (580, 580, 1, 649), (581, 581, 1, 652),
     (582, 590, 2, 583), (880, 882, 2, 881), (886, 886, 1, 887), (895, 895, 1, 1011),
     (902, 902, 1, 940), (904, 906, 1, 941), (908, 908, 1, 972), (910, 911, 1, 973),
     (913, 929, 1, 945), (931, 939, 1, 963), (975, 975, 1, 983), (984, 1006, 2, 985),
     (1012, 1012, 1, 952), (1015, 1015, 1, 1016), (1017, 1017, 1, 1010), (1018, 1018, 1, 1019),
     (1021, 1023, 1, 891), (1024, 1039, 1, 1104), (1040, 1071, 1, 1072), (1120, 1152, 2, 1121),
     (1162, 1214, 2, 1163), (1216, 1216, 1, 1231), (1217, 1229, 2, 1218), (1232, 1326, 2, 1233),
     (1329, 1366, 1, 1377), (4256, 4293, 1, 11520), (4295, 4295, 1, 11559), (4301, 4301, 1, 11565),
     (5024, 5103, 1, 43888), (5104, 5109, 1, 5112), (7312, 7354, 1, 4304), (7357, 7359, 1, 4349),
     (7680, 7828, 2, 7681), (7838, 7838, 1, 223), (7840, 7934, 2, 7841), (7944, 7951, 1, 7936),
     (7960, 7965, 1, 7952), (7976, 7983, 1, 7968), (7992, 7999, 1, 7984), (8008, 8013, 1, 8000),
     (8025, 8031, 2, 8017), (8040, 8047, 1, 8032), (8072, 8079, 1, 8064), (8088, 8095, 1, 8080),
     (8104, 8111, 1, 8096), (8120, 8121, 1, 8112), (8122, 8123, 1, 8048), (8124, 8124, 1, 8115),
     (8136, 8139, 1, 8050), (8140, 8140, 1, 8131), (8152, 8153, 1, 8144), (8154, 8155, 1, 8054),
     (8168, 8169, 1, 8160), (8170, 8171, 1, 8058), (8172, 8172, 1, 8165), (8184, 8185, 1, 8056),
     (8186, 8187, 1, 8060), (8188, 8188, 1, 8179), (8486, 8486, 1, 969), (8490, 8490, 1, 107),
     (8491, 8491, 1, 229), (8498, 8498, 1, 8526), (8544, 8559, 1, 8560), (8579, 8579, 1, 8580),
     (9398, 9423, 1, 9424), (11264, 11311, 1, 11312), (11360, 11360, 1, 11361), (11362, 11362, 1, 619),
     (11363, 11363, 1, 7549), (11364, 11364, 1, 637), (11367, 11371, 2, 11368), (11373, 11373, 1, 593),
     (11374, 11374, 1, 625), (11375, 11375, 1, 592), (11376, 11376, 1, 594), (11378, 11378, 1, 11379),
     (11381, 11381, 1, 11382), (11390, 11391, 1, 575), (11392, 11490, 2, 11393), (11499, 11501, 2, 11500),
     (11506, 11506, 1, 11507), (42560, 42604, 2, 42561), (42624, 42650, 2, 42625), (42786, 42798, 2, 42787),
     (42802, 42862, 2, 42803), (42873, 42875, 2, 42874), (42877, 42877, 1, 7545), (42878, 42886, 2, 42879),
     (42891, 42891, 1, 42892), (42893, 42893, 1, 613), (42896, 42898, 2, 42897), (42902, 42920, 2, 42903),
     (42922, 42922, 1, 614), (42923, 42923, 1, 604), (42924, 42924, 1, 609), (42925, 42925, 1, 620),
     (42926, 42926, 1, 618), (42928, 42928, 1, 670), (42929, 42929, 1, 647), (42930, 42930, 1, 669),
     (42931, 42931, 1, 43859), (42932, 42946, 2, 42933), (42948, 42948, 1, 42900), (42949, 42949, 1, 642),
     (42950, 42950, 1, 7566), (42951, 42953, 2, 42952), (42960, 42960, 1, 42961), (42966, 42968, 2, 42967),
     (42997, 42997, 1, 42998), (65313, 65338, 1, 65345), (66560, 66599, 1, 66600), (66736, 66771, 1, 66776),
     (66928, 66938, 1, 66967), (66940, 66954, 1, 66979), (66956, 66962, 1, 66995), (66964, 66965, 1, 67003),
     (68736, 68786, 1, 68800), (71840, 71871, 1, 71872), (93760, 93791, 1, 93792), (125184, 125217, 1, 125218)]"

fun table_lower :: "(nat \<times> nat \<times> nat \<times> nat) list \<Rightarrow> nat \<Rightarrow> nat" where
  "table_lower [] c = c"
| "table_lower ((lo, hi, step, target) # t) c =
     (if lo \<le> c \<and> c \<le> hi \<and> (c - lo) mod step = 0 then target + (c - lo)
      else table_lower t c)"

definition lower_cp :: "nat \<Rightarrow> pystr" where
  "lower_cp c =
     (if c < 128 then (if 65 \<le> c \<and> c \<le> 90 then [c + 32] else [c])
      else if c = 304 then [105, 775]
      else [table_lower lower_table c])"

text \<open>
  The capital sigma (931) is the one code point whose lower-case form depends on its
  place: the final form (962) when a cased code point stands before it and none after
  it, case-ignorable code points being passed over on both sides; the form 963
  otherwise. \<open>case_ignorable_ranges\<close> are the case-ignorable code points, and
  \<open>cased_ranges\<close> the cased code points among the others (the test for a cased code
  point is made only where the case-ignorable ones have been passed over).
\<close>

definition in_ranges :: "(nat \<times> nat) list \<Rightarrow> nat \<Rightarrow> bool" where
  "in_ranges rs c = list_ex (\<lambda>r. fst r \<le> c \<and> c \<le> snd r) rs"

definition case_ignorable_ranges :: "(nat \<times> nat) list" where
  "case_ignorable_ranges =
    [
     (39, 39), (46, 46), (58, 58), (94, 94), (96, 96), (168, 168),
     (173, 173), (175, 175), (180, 180), (183, 184), (688, 879), (884, 885),
     (890, 890), (900, 901), (903, 903), (1155, 1161), (1369, 1369), (1375, 1375),
     (1425, 1469), (1471, 1471), (1473, 1474), (1476, 1477), (1479, 1479), (1524, 1524),
     (1536, 1541), (1552, 1562), (1564, 1564), (1600, 1600), (1611, 1631), (1648, 1648),
     (1750, 1757), (1759, 1768), (1770, 1773), (1807, 1807), (1809, 1809), (1840, 1866),
     (1958, 1968), (2027, 2037), (2042, 2042), (2045, 2045), (2070, 2093), (2137, 2139),
     (2184, 2184), (2192, 2193), (2200, 2207), (2249, 2306), (2362, 2362), (2364, 2364),
     (2369, 2376), (2381, 2381), (2385, 2391), (2402, 2403), (2417, 2417), (2433, 2433),
     (2492, 2492), (2497, 2500), (2509, 2509), (2530, 2531), (2558, 2558), (2561, 2562),
     (2620, 2620), (2625, 2626), (2631, 2632), (2635, 2637), (2641, 2641), (2672, 2673),
     (2677, 2677), (2689, 2690), (2748, 2748), (2753, 2757), (2759, 2760), (2765, 2765),
     (2786, 2787), (2810, 2815), (2817, 2817), (2876, 2876), (2879, 2879), (2881, 2884),
     (2893, 2893), (2901, 2902), (2914, 2915), (2946, 2946), (3008, 3008), (3021, 3021),
     (3072, 3072), (3076, 3076), (3132, 3132), (3134, 3136), (3142, 3144), (3146, 3149),
     (3157, 3158), (3170, 3171), (3201, 3201), (3260, 3260), (3263, 3263), (3270, 3270),
     (3276, 3277), (3298, 3299), (3328, 3329), (3387, 3388), (3393, 3396), (3405, 3405),
     (3426, 3427), (3457, 3457), (3530, 3530), (3538, 3540), (3542, 3542), (3633, 3633),
     (3636, 3642), (3654, 3662), (3761, 3761), (3764, 3772), (3782, 3782), (3784, 3789),
     (3864, 3865), (3893, 3893), (3895, 3895), (3897, 3897), (3953, 3966), (3968, 3972),
     (3974, 3975), (3981, 3991), (3993, 4028), (4038, 4038), (4141, 4144), (4146, 4151),
     (4153, 4154), (4157, 4158), (4184, 4185), (4190, 4192), (4209, 4212), (4226, 4226),
     (4229, 4230), (4237, 4237), (4253, 4253), (4348, 4348), (4957, 4959), (5906, 5908),
     (5938, 5939), (5970, 5971), (6002, 6003), (6068, 6069), (6071, 6077), (6086, 6086),
     (6089, 6099), (6103, 6103), (6109, 6109), (6155, 6159), (6211, 6211), (6277, 6278),
     (6313, 6313), (6432, 6434), (6439, 6440), (6450, 6450), (6457, 6459), (6679, 6680),
     (6683, 6683), (6742, 6742), (6744, 6750), (6752, 6752), (6754, 6754), (6757, 6764),
     (6771, 6780), (6783, 6783), (6823, 6823), (6832, 6862), (6912, 6915), (6964, 6964),
     (6966, 6970), (6972, 6972), (6978, 6978), (7019, 7027), (7040, 7041), (7074, 7077),
     (7080, 7081), (7083, 7085), (7142, 7142), (7144, 7145), (7149, 7149), (7151, 7153),
     (7212, 7219), (7222, 7223), (7288, 7293), (7376, 7378), (7380, 7392), (7394, 7400),
     (7405, 7405), (7412, 7412), (7416, 7417), (7468, 7530), (7544, 7544), (7579, 7679),
     (8125, 8125), (8127, 8129), (8141, 8143), (8157, 8159), (8173, 8175), (8189, 8190),
     (8203, 8207), (8216, 8217), (8228, 8228), (8231, 8231), (8234, 8238), (8288, 8292),
     (8294, 8303), (8305, 8305), (8319, 8319), (8336, 8348), (8400, 8432), (11388, 11389),
     (11503, 11505), (11631, 11631), (11647, 11647), (11744, 11775), (11823, 11823), (12293, 12293),
     (12330, 12333), (12337, 12341), (12347, 12347), (12441, 12446), (12540, 12542), (40981, 40981),
     (42232, 42237), (42508, 42508), (42607, 42610), (42612, 42621), (42623, 42623), (42652, 42655),
     (42736, 42737), (42752, 42785), (42864, 42864), (42888, 42890), (42994, 42996), (43000, 43001),
     (43010, 43010), (43014, 43014), (43019, 43019), (43045, 43046), (43052, 43052), (43204, 43205),
     (43232, 43249), (43263, 43263), (43302, 43309), (43335, 43345), (43392, 43394), (43443, 43443),
     (43446, 43449), (43452, 43453), (43471, 43471), (43493, 43494), (43561, 43566), (43569, 43570),
     (43573, 43574), (43587, 43587), (43596, 43596), (43632, 43632), (43644, 43644), (43696, 43696),
     (43698, 43700), (43703, 43704), (43710, 43711), (43713, 43713), (43741, 43741), (43756, 43757),
     (43763, 43764), (43766, 43766), (43867, 43871), (43881, 43883), (44005, 44005), (44008, 44008),
     (44013, 44013), (64286, 64286), (64434, 64450), (65024, 65039), (65043, 65043), (65056, 65071),
     (65106, 65106), (65109, 65109), (65279, 65279), (65287, 65287), (65294, 65294), (65306, 65306),
     (65342, 65342), (65344, 65344), (65392, 65392), (65438, 65439), (65507, 65507), (65529, 65531),
     (66045, 66045), (66272, 66272), (66422, 66426), (67456, 67461), (67463, 67504), (67506, 67514),
     (68097, 68099), (68101, 68102), (68108, 68111), (68152, 68154), (68159, 68159), (68325, 68326),
     (68900, 68903), (69291, 69292), (69446, 69456), (69506, 69509), (69633, 69633), (69688, 69702),
     (69744, 69744), (69747, 69748), (69759, 69761), (69811, 69814), (69817, 69818), (69821, 69821),
     (69826, 69826), (69837, 69837), (69888, 69890), (69927, 69931), (69933, 69940), (70003, 70003),
     (70016, 70017), (70070, 70078), (70089, 70092), (70095, 70095), (70191, 70193), (70196, 70196),
     (70198, 70199), (70206, 70206), (70367, 70367), (70371, 70378), (70400, 70401), (70459, 70460),
     (70464, 70464), (70502, 70508), (70512, 70516), (70712, 70719), (70722, 70724), (70726, 70726),
     (70750, 70750), (70835, 70840), (70842, 70842), (70847, 70848), (70850, 70851), (71090, 71093),
     (71100, 71101), (71103, 71104), (71132, 71133), (71219, 71226), (71229, 71229), (71231, 71232),
     (71339, 71339), (71341, 71341), (71344, 71349), (71351, 71351), (71453, 71455), (71458, 71461),
     (71463, 71467), (71727, 71735), (71737, 71738), (71995, 71996), (71998, 71998), (72003, 72003),
     (72148, 72151), (72154, 72155), (72160, 72160), (72193, 72202), (72243, 72248), (72251, 72254),
     (72263, 72263), (72273, 72278), (72281, 72283), (72330, 72342), (72344, 72345), (72752, 72758),
     (72760, 72765), (72767, 72767), (72850, 72871), (72874, 72880), (72882, 72883), (72885, 72886),
     (73009, 73014), (73018, 73018), (73020, 73021), (73023, 73029), (73031, 73031), (73104, 73105),
     (73109, 73109), (73111, 73111), (73459, 73460), (78896, 78904), (92912, 92916), (92976, 92982),
     (92992, 92995), (94031, 94031), (94095, 94111), (94176, 94177), (94179, 94180), (110576, 110579),
     (110581, 110587), (110589, 110590), (113821, 113822), (113824, 113827), (118528, 118573), (118576, 118598),
     (119143, 119145), (119155, 119170), (119173, 119179), (119210, 119213), (119362, 119364), (121344, 121398),
     (121403, 121452), (121461, 121461), (121476, 121476), (121499, 121503), (121505, 121519), (122880, 122886),
     (122888, 122904), (122907, 122913), (122915, 122916), (122918, 122922), (123184, 123197), (123566, 123566),
     (123628, 123631), (125136, 125142), (125252, 125259), (127995, 127999), (917505, 917505), (917536, 917631),
     (917760, 917999)]"

definition cased_ranges :: "(nat \<times> nat) list" where
  "cased_ranges =
    [
     (65, 90), (97, 122), (170, 170), (181, 181), (186, 186), (192, 214),
     (216, 246), (248, 442), (444, 447), (452, 659), (661, 687), (880, 883),
     (886, 887), (891, 893), (895, 895), (902, 902), (904, 906), (908, 908),
     (910, 929), (931, 1013), (1015, 1153), (1162, 1327), (1329, 1366), (1376, 1416),
     (4256, 4293), (4295, 4295), (4301, 4301), (4304, 4346), (4349, 4351), (5024, 5109),
     (5112, 5117), (7296, 7304), (7312, 7354), (7357, 7359), (7424, 7467), (7531, 7543),
     (7545, 7578), (7680, 7957), (7960, 7965), (7968, 8005), (8008, 8013), (8016, 8023),
     (8025, 8025), (8027, 8027), (8029, 8029), (8031, 8061), (8064, 8116), (8118, 8124),
     (8126, 8126), (8130, 8132), (8134, 8140), (8144, 8147), (8150, 8155), (8160, 8172),
     (8178, 8180), (8182, 8188), (8450, 8450), (8455, 8455), (8458, 8467), (8469, 8469),
     (8473, 8477), (8484, 8484), (8486, 8486), (8488, 8488), (8490, 8493), (8495, 8500),
     (8505, 8505), (8508, 8511), (8517, 8521), (8526, 8526), (8544, 8575), (8579, 8580),
     (9398, 9449), (11264, 11387), (11390, 11492), (11499, 11502), (11506, 11507), (11520, 11557),
     (11559, 11559), (11565, 11565), (42560, 42605), (42624, 42651), (42786, 42863), (42865, 42887),
     (42891, 42894), (42896, 42954), (42960, 42961), (42963, 42963), (42965, 42969), (42997, 42998),
     (43002, 43002), (43824, 43866), (43872, 43880), (43888, 43967), (64256, 64262), (64275, 64279),
     (65313, 65338), (65345, 65370), (66560, 66639), (66736, 66771), (66776, 66811), (66928, 66938),
     (66940, 66954), (66956, 66962), (66964, 66965), (66967, 66977), (66979, 66993), (66995, 67001),
     (67003, 67004), (68736, 68786), (68800, 68850), (71840, 71903), (93760, 93823), (119808, 119892),
     (119894, 119964), (119966, 119967), (119970, 119970), (119973, 119974), (119977, 119980), (119982, 119993),
     (119995, 119995), (119997, 120003), (120005, 120069), (120071, 120074), (120077, 120084), (120086, 120092),
     (120094, 120121), (120123, 120126), (120128, 120132), (120134, 120134), (120138, 120144), (120146, 120485),
     (120488, 120512), (120514, 120538), (120540, 120570), (120572, 120596), (120598, 120628), (120630, 120654),
     (120656, 120686), (120688, 120712), (120714, 120744), (120746, 120770), (120772, 120779), (122624, 122633),
     (122635, 122654), (125184, 125251), (127280, 127305), (127312, 127337), (127344, 127369)]"

definition case_ignorable :: "nat \<Rightarrow> bool" where
  "case_ignorable c = in_ranges case_ignorable_ranges c"

definition cased :: "nat \<Rightarrow> bool" where
  "cased c = in_ranges cased_ranges c"

text \<open>\<open>prev\<close> is the text before the sigma, the nearest code point first.\<close>

definition final_sigma :: "pystr \<Rightarrow> pystr \<Rightarrow> bool" where
  "final_sigma prev rest =
     (case dropWhile case_ignorable prev of
        [] \<Rightarrow> False
      | c # _ \<Rightarrow>
          cased c \<and>
          (case dropWhile case_ignorable rest of [] \<Rightarrow> True | d # _ \<Rightarrow> \<not> cased d))"

fun lower_from :: "pystr \<Rightarrow> pystr \<Rightarrow> pystr" where
  "lower_from prev [] = []"
| "lower_from prev (c # cs) =
     (if c = 931 then [if final_sigma prev cs then 962 else 963] else lower_cp c)
       @ lower_from (c # prev) cs"

definition lower :: "pystr \<Rightarrow> pystr" where
  "lower s = lower_from [] s"

text \<open>The code points that \<^verbatim>\<open>str.split()\<close> takes as white space.\<close>

definition is_space :: "nat \<Rightarrow> bool" where
  "is_space c = ((9 \<le> c \<and> c \<le> 13) \<or> (28 \<le> c \<and> c \<le> 32) \<or> c = 133 \<or> c = 160 \<or> c = 5760 \<or>
                 (8192 \<le> c \<and> c \<le> 8202) \<or> c = 8232 \<or> c = 8233 \<or> c = 8239 \<or> c = 8287 \<or>
                 c = 12288)"

text \<open>
  \<^verbatim>\<open>str.split()\<close> without arguments: the maximal runs of code points that are not white
  space, in order. \<open>split_from w s\<close> reads \<open>s\<close> with the word \<open>w\<close> begun so far.
\<close>

fun split_from :: "pystr \<Rightarrow> pystr \<Rightarrow> pystr list" where
  "split_from w [] = (if w = [] then [] else [w])"
| "split_from w (c # cs) =
     (if is_space c then (if w = [] then split_from [] cs else w # split_from [] cs)
      else split_from (w @ [c]) cs)"

definition split :: "pystr \<Rightarrow> pystr list" where
  "split s = split_from [] s"

text \<open>The operator \<^verbatim>\<open>in\<close> on two strings: \<^verbatim>\<open>w in s\<close> holds when \<open>w\<close> occurs in \<open>s\<close>.\<close>

definition is_in :: "pystr \<Rightarrow> pystr \<Rightarrow> bool" where
  "is_in w s = sublist w s"

text \<open>The comprehension \<^verbatim>\<open>[word for word in text.split() if len(word) > 3]\<close>.\<close>

definition long_words :: "pystr \<Rightarrow> pystr list" where
  "long_words text = filter (\<lambda>word. length word > 3) (split text)"

section \<open>Plan matching\<close>

subsection \<open>The deactivation request of the chat route (routes/chat.py)\<close>


text \<open>The test of the loop body: a significant word of the plan occurs in the message.\<close>

definition plan_mentioned :: "pystr \<Rightarrow> plan_view \<Rightarrow> bool" where
  "plan_mentioned message plan =
     (let plan_condition = lower (v_condition plan);
          pname = lower (v_plan_name plan);
          message_lower = lower message;
          condition_words = long_words plan_condition;
          name_words = long_words pname
      in list_ex (\<lambda>word. is_in word message_lower) (condition_words @ name_words))"

text \<open>The loop with its \<^verbatim>\<open>break\<close>: the first plan that is mentioned.\<close>

definition deactivation_target :: "pystr \<Rightarrow> plan_view list \<Rightarrow> plan_view option" where
  "deactivation_target message plans = find_one (plan_mentioned message) plans"


subsection \<open>The daily progress report (routes/plans.py)\<close>

text \<open>\<^verbatim>\<open>ProgressReportRequest\<close>.\<close>

record progress_report_request =
  message :: pystr
  mark_all_complete :: bool
  specific_plan_condition :: "pystr option"

definition progress_indicators :: "pystr list" where
  "progress_indicators = [str ''done'', str ''completed'', str ''finished'', str ''did'',
     str ''yes'', [0x2705], [0x2713], str ''all'', str ''everything'']"

text \<open>The route also sets up the negative indicators; no branch reads them.\<close>

definition negative_indicators :: "pystr list" where
  "negative_indicators = [str ''didn't'', str ''couldn't'', str ''missed'', str ''no'',
     str ''skipped'', [0x274C], [0x2717]]"

text \<open>
  The target plan of a request to mark all tasks: by the condition given in the
  request when there is one (not \<^verbatim>\<open>None\<close> and not empty), by the words of the message
  otherwise.
\<close>

definition target_by_condition :: "pystr \<Rightarrow> plan_view list \<Rightarrow> plan_view option" where
  "target_by_condition target_condition plans =
     find_one (\<lambda>plan. list_ex (\<lambda>word. is_in word (lower (v_condition plan)))
                         (long_words (lower target_condition))) plans"

definition target_by_message :: "pystr \<Rightarrow> plan_view list \<Rightarrow> plan_view option" where
  "target_by_message message_lower plans =
     find_one (\<lambda>plan. list_ex (\<lambda>word. is_in word message_lower)
                         (long_words (lower (v_condition plan)))) plans"

definition resolve_target_plan :: "progress_report_request \<Rightarrow> plan_view list \<Rightarrow> plan_view option" where
  "resolve_target_plan request plans =
     (case specific_plan_condition request of
        None \<Rightarrow> target_by_message (lower (message request)) plans
      | Some target_condition \<Rightarrow>
          if target_condition = [] then target_by_message (lower (message request)) plans
          else target_by_condition target_condition plans)"

text \<open>
  One call of \<open>update_task_progress\<close> for today inside a loop, with the list
  \<^verbatim>\<open>updated_tasks\<close> that collects the names of the tasks whose call returned \<open>True\<close>.
\<close>

definition mark_today ::
  "int \<Rightarrow> pystr \<Rightarrow> pystr \<Rightarrow> db_manager \<times> pystr list \<Rightarrow> pystr \<Rightarrow> db_manager \<times> pystr list" where
  "mark_today now today pid st tn =
     (let (self', success) = update_task_progress now (fst st) pid tn today
      in (self', if success then snd st @ [tn] else snd st))"

text \<open>The loop over the tasks of the target plan: every task not completed today is marked.\<close>

definition mark_all_pending ::
  "int \<Rightarrow> pystr \<Rightarrow> db_manager \<times> pystr list \<Rightarrow> plan_view \<Rightarrow> db_manager \<times> pystr list" where
  "mark_all_pending now today st target_plan =
     foldl (\<lambda>st task. if today \<in> set (progress task) then st
                       else mark_today now today (plan_id target_plan) st (task_name task))
       st (v_tasks target_plan)"

text \<open>
  The test of the individual matching: an indicator occurs in the message, and either
  a word of the message longer than 3 characters occurs in the task name, or two or
  more of the indicators occur in the message.
\<close>

definition task_confirmed :: "pystr \<Rightarrow> pystr \<Rightarrow> bool" where
  "task_confirmed message_lower tn =
     (list_ex (\<lambda>indicator. is_in indicator message_lower) progress_indicators \<and>
      (list_ex (\<lambda>word. is_in word (lower tn)) (long_words message_lower) \<or>
       length (filter (\<lambda>ind. is_in ind message_lower) progress_indicators) \<ge> 2))"

definition mark_confirmed ::
  "int \<Rightarrow> pystr \<Rightarrow> pystr \<Rightarrow> db_manager \<times> pystr list \<Rightarrow> plan_view \<Rightarrow> db_manager \<times> pystr list" where
  "mark_confirmed now today message_lower st plan =
     foldl (\<lambda>st task. if today \<notin> set (progress task) \<and> task_confirmed message_lower (task_name task)
                       then mark_today now today (plan_id plan) st (task_name task)
                       else st)
       st (v_tasks plan)"

text \<open>
  \<^verbatim>\<open>daily_progress_report(request)\<close>: the manager afterwards and \<^verbatim>\<open>updated_tasks\<close>.
  \<open>today\<close> is the date of the call as the route formats it. The plans are read once,
  before the loops. The two \<^verbatim>\<open>store_chat_message\<close> calls and the text of the answer
  concern the chat log and are left out.
\<close>

definition daily_progress_report ::
  "int \<Rightarrow> pystr \<Rightarrow> db_manager \<Rightarrow> progress_report_request \<Rightarrow> db_manager \<times> pystr list" where
  "daily_progress_report now today self request =
     (let plans = get_active_plans self;
          message_lower = lower (message request)
      in if mark_all_complete request \<or> is_in (str ''mark all'') message_lower
            \<or> is_in (str ''all tasks'') message_lower
         then (case resolve_target_plan request plans of
                 None \<Rightarrow> (self, [])
               | Some target_plan \<Rightarrow> mark_all_pending now today (self, []) target_plan)
         else foldl (mark_confirmed now today message_lower) (self, []) plans)"

text \<open>
  The tasks that the individual matching selects, as pairs of plan id and task
  name, in the order of the two loops: for every plan the tasks that are not
  completed today and pass the test.
\<close>

definition confirmed_tasks :: "pystr \<Rightarrow> pystr \<Rightarrow> plan_view list \<Rightarrow> (pystr \<times> pystr) list" where
  "confirmed_tasks today message_lower plans =
     concat (map (\<lambda>plan. map (\<lambda>task. (plan_id plan, task_name task))
                          (filter (\<lambda>task. today \<notin> set (progress task) \<and>
                                           task_confirmed message_lower (task_name task))
                             (v_tasks plan))) plans)"

text \<open>
  The rule of the individual matching as the specification words it: the message
  contains a word longer than 3 characters of the task's name, or it contains two or
  more of the indicator words.
\<close>

definition spec_task_confirmed :: "pystr \<Rightarrow> pystr \<Rightarrow> bool" where
  "spec_task_confirmed message_lower tn =
     (list_ex (\<lambda>word. is_in word message_lower) (long_words (lower tn)) \<or>
      length (filter (\<lambda>ind. is_in ind message_lower) progress_indicators) \<ge> 2)"

text \<open>A plan is present under an id when \<open>update_task_progress\<close> finds it.\<close>

definition present :: "db_manager \<Rightarrow> pystr \<Rightarrow> bool" where
  "present self pid = (\<exists>docs plan. plans_collection self = Some docs \<and>
      find_one (id_user_filter pid) docs = Some plan)"

subsection \<open>The progress check on a chat turn (utils.py)\<close>

definition completion_words :: "pystr list" where
  "completion_words = [str ''did'', str ''completed'', str ''finished'', str ''done'',
     str ''yes'', [0x2705], [0x2713]]"

text \<open>
  One call of \<open>update_task_progress\<close> for today, with the counter \<^verbatim>\<open>updated_count\<close>
  of the calls that returned \<open>True\<close>.
\<close>

definition count_today ::
  "int \<Rightarrow> pystr \<Rightarrow> pystr \<Rightarrow> db_manager \<times> nat \<Rightarrow> pystr \<Rightarrow> db_manager \<times> nat" where
  "count_today now today pid st tn =
     (let (self', success) = update_task_progress now (fst st) pid tn today
      in (self', if success then snd st + 1 else snd st))"

text \<open>
  \<^verbatim>\<open>process_progress_from_ai_response(ai_response, user_message)\<close>: when the message
  holds a completion word, every task not completed today one of whose words longer
  than 3 characters occurs in the message is marked. The answer of the specialist is
  not read.
\<close>

definition process_progress_from_ai_response ::
  "int \<Rightarrow> pystr \<Rightarrow> db_manager \<Rightarrow> pystr \<Rightarrow> pystr \<Rightarrow> db_manager \<times> nat" where
  "process_progress_from_ai_response now today self ai_response user_message =
     (let plans = get_active_plans self
      in if plans = [] then (self, 0)
         else (let user_lower = lower user_message;
                   user_indicates_completion =
                     list_ex (\<lambda>word. is_in word user_lower) completion_words
               in if user_indicates_completion
                  then foldl (\<lambda>st plan.
                         foldl (\<lambda>st task.
                                  let tn = task_name task;
                                      task_lower = lower tn
                                  in if today \<in> set (progress task) then st
                                     else (let task_keywords = long_words task_lower;
                                               user_mentioned_task =
                                                 list_ex (\<lambda>keyword. is_in keyword user_lower)
                                                   task_keywords
                                           in if user_mentioned_task
                                              then count_today now today (plan_id plan) st tn
                                              else st))
                           st (v_tasks plan))
                         (self, 0) plans
                  else (self, 0)))"

section \<open>Analytics (database.py)\<close>

text \<open>A specialist's counters as \<^verbatim>\<open>get_specialist_stats\<close> returns them, the defaults filled in.\<close>

record specialist_stat =
  v_specialist_name :: pystr
  v_total_words_generated :: int
  v_total_messages_sent :: int
  v_last_activity :: "int option"
  v_daily_word_counts :: "pystr \<rightharpoonup> int"

definition stat_of :: "stats_doc \<Rightarrow> specialist_stat" where
  "stat_of stat =
     \<lparr>v_specialist_name = specialist_name stat,
      v_total_words_generated = (case total_words_generated stat of None \<Rightarrow> 0 | Some n \<Rightarrow> n),
      v_total_messages_sent = (case total_messages_sent stat of None \<Rightarrow> 0 | Some n \<Rightarrow> n),
      v_last_activity = last_activity stat,
      v_daily_word_counts = (case daily_word_counts stat of None \<Rightarrow> Map.empty | Some m \<Rightarrow> m)\<rparr>"

text \<open>
  \<^verbatim>\<open>get_specialist_stats(specialist_name=None)\<close>: the query is on the user, and on the
  name when one is given that is not empty.
\<close>

definition get_specialist_stats :: "db_manager \<Rightarrow> pystr option \<Rightarrow> specialist_stat list" where
  "get_specialist_stats self name =
     (case specialist_stats_collection self of
        None \<Rightarrow> []
      | Some docs \<Rightarrow>
          map stat_of
            (filter (\<lambda>stat. stats_user_id stat = default_user \<and>
                        (case name of None \<Rightarrow> True
                         | Some n \<Rightarrow> n = [] \<or> specialist_name stat = n)) docs))"

text \<open>
  An entry of the series of \<^verbatim>\<open>get_time_spent_last_7_days\<close> (\<open>entry_date\<close> is its
  key \<^verbatim>\<open>date\<close>). The keys
  \<^verbatim>\<open>time_spent_minutes\<close> and \<^verbatim>\<open>time_spent_seconds\<close> are floating-point numbers computed
  from \<^verbatim>\<open>total_words\<close> and are not part of the record.
\<close>

record day_entry =
  entry_date :: pystr
  display_date :: pystr
  total_words :: int
  specialist_breakdown :: "pystr \<rightharpoonup> int"

text \<open>\<^verbatim>\<open>daily_word_counts.get(date_str, 0)\<close>.\<close>

definition words_on :: "specialist_stat \<Rightarrow> pystr \<Rightarrow> int" where
  "words_on specialist_stat date_str =
     (case v_daily_word_counts specialist_stat date_str of None \<Rightarrow> 0 | Some n \<Rightarrow> n)"

text \<open>The body of the loop over the dates: the inner loop over the counters, then the entry.\<close>

definition entry_for :: "(pystr \<Rightarrow> pystr) \<Rightarrow> specialist_stat list \<Rightarrow> pystr \<Rightarrow> day_entry" where
  "entry_for display stats date_str =
     (let (total, breakdown) =
            foldl (\<lambda>(total, breakdown) specialist_stat.
                     let daily_words = words_on specialist_stat date_str
                     in (total + daily_words,
                         if daily_words > 0
                         then breakdown(v_specialist_name specialist_stat \<mapsto> daily_words)
                         else breakdown))
              (0, Map.empty) stats
      in \<lparr>entry_date = date_str, display_date = display date_str, total_words = total,
          specialist_breakdown = breakdown\<rparr>)"

text \<open>
  \<^verbatim>\<open>get_time_spent_last_7_days()\<close>. The clock gives \<open>today\<close>, a day counted as an
  integer, so that \<open>today - i\<close> is the day \<open>i\<close> days before; \<open>ymd\<close> is the format
  \<^verbatim>\<open>strftime("%Y-%m-%d")\<close> of a day, and \<open>display\<close> turns such a date string into the
  form \<^verbatim>\<open>"%b %d"\<close>.
\<close>

definition get_time_spent_last_7_days ::
  "int \<Rightarrow> (int \<Rightarrow> pystr) \<Rightarrow> (pystr \<Rightarrow> pystr) \<Rightarrow> db_manager \<Rightarrow> day_entry list" where
  "get_time_spent_last_7_days today ymd display self =
     (let stats = get_specialist_stats self None
      in if stats = [] then []
         else (let last_7_days = map (\<lambda>i. ymd (today - int i)) [0..<7]
               in map (entry_for display stats) (rev last_7_days)))"

section \<open>Plan extraction (plan_generator.py)\<close>

subsection \<open>The day pattern\<close>

text \<open>
  The pattern of \<^verbatim>\<open>extract_daily_tasks_from_response\<close> is
  \<^verbatim>\<open>Day\s*(\d+):\s*([^.]+(?:\.[^D]*(?=Day\s*\d+|$))?)\<close>, searched with the flags
  \<^verbatim>\<open>IGNORECASE\<close>, \<^verbatim>\<open>MULTILINE\<close> and \<^verbatim>\<open>DOTALL\<close>. The functions below follow the
  backtracking matcher on this pattern. \<^verbatim>\<open>\s\<close> is the white space of \<open>is_space\<close>;
  \<^verbatim>\<open>\d\<close> is a decimal digit of any script: the digits 0 to 9 and, above 127, the
  code points of \<open>decimal_ranges\<close>.
\<close>

definition decimal_ranges :: "(nat \<times> nat) list" where
  "decimal_ranges =
    [
     (1632, 1641), (1776, 1785), (1984, 1993), (2406, 2415), (2534, 2543), (2662, 2671),
     (2790, 2799), (2918, 2927), (3046, 3055), (3174, 3183), (3302, 3311), (3430, 3439),
     (3558, 3567), (3664, 3673), (3792, 3801), (3872, 3881), (4160, 4169), (4240, 4249),
     (6112, 6121), (6160, 6169), (6470, 6479), (6608, 6617), (6784, 6793), (6800, 6809),
     (6992, 7001), (7088, 7097), (7232, 7241), (7248, 7257), (42528, 42537), (43216, 43225),
     (43264, 43273), (43472, 43481), (43504, 43513), (43600, 43609), (44016, 44025), (65296, 65305),
     (66720, 66729), (68912, 68921), (69734, 69743), (69872, 69881), (69942, 69951), (70096, 70105),
     (70384, 70393), (70736, 70745), (70864, 70873), (71248, 71257), (71360, 71369), (71472, 71481),
     (71904, 71913), (72016, 72025), (72784, 72793), (73040, 73049), (73120, 73129), (92768, 92777),
     (92864, 92873), (93008, 93017), (120782, 120831), (123200, 123209), (123632, 123641), (125264, 125273),
     (130032, 130041)]"

definition is_digit :: "nat \<Rightarrow> bool" where
  "is_digit c = (if c < 128 then 48 \<le> c \<and> c \<le> 57 else in_ranges decimal_ranges c)"

text \<open>
  A literal of a pattern under \<^verbatim>\<open>IGNORECASE\<close>. The letters of the literals of these
  patterns (those of \<^verbatim>\<open>Day\<close>, \<^verbatim>\<open>Plan\<close>, \<^verbatim>\<open>Management\<close> and \<^verbatim>\<open>Program\<close>) each match
  two code points, the capital and the small letter; another character matches
  itself. \<open>match_ci lit s\<close> is the rest of \<open>s\<close> after \<open>lit\<close>, read without regard to
  case, or \<open>None\<close>.
\<close>

definition ci_eq :: "nat \<Rightarrow> nat \<Rightarrow> bool" where
  "ci_eq p c = (c = p \<or> (65 \<le> p \<and> p \<le> 90 \<and> c = p + 32) \<or> (97 \<le> p \<and> p \<le> 122 \<and> p = c + 32))"

fun match_ci :: "pystr \<Rightarrow> pystr \<Rightarrow> pystr option" where
  "match_ci [] s = Some s"
| "match_ci (p # ps) [] = None"
| "match_ci (p # ps) (c # cs) = (if ci_eq p c then match_ci ps cs else None)"

text \<open>The first alternative of the lookahead, \<^verbatim>\<open>Day\s*\d+\<close>, at the head of \<open>s\<close>.\<close>

definition day_ahead :: "pystr \<Rightarrow> bool" where
  "day_ahead s =
     (case match_ci (str ''Day'') s of
        None \<Rightarrow> False
      | Some r \<Rightarrow> (case dropWhile is_space r of [] \<Rightarrow> False | c # _ \<Rightarrow> is_digit c))"

text \<open>
  The part \<^verbatim>\<open>[^D]*(?=Day\s*\d+|$)\<close> on the text \<open>s\<close> that follows a full stop.
  \<^verbatim>\<open>[^D]*\<close> first takes every character up to the next \<open>D\<close> or \<open>d\<close>; there the
  lookahead holds if a day marker follows or the text ends. Otherwise the matcher
  gives characters back, and the lookahead can hold only by \<^verbatim>\<open>$\<close> before a line
  feed: the part ends before the last line feed taken. The result is the text
  taken, or \<open>None\<close> when the part does not match.
\<close>

definition dot_tail :: "pystr \<Rightarrow> pystr option" where
  "dot_tail s =
     (let taken = takeWhile (\<lambda>c. \<not> ci_eq 68 c) s;
          after = dropWhile (\<lambda>c. \<not> ci_eq 68 c) s
      in if day_ahead after \<or> after = [] then Some taken
         else if 10 \<in> set taken then Some (rev (tl (dropWhile (\<lambda>c. c \<noteq> 10) (rev taken))))
         else None)"

text \<open>
  A match of the whole pattern at the head of \<open>s\<close>: the two groups and the text
  after the match. After the colon, \<^verbatim>\<open>\s*\<close> takes all white space and \<^verbatim>\<open>[^.]+\<close>
  every character up to the next full stop; when no character is left for \<^verbatim>\<open>[^.]+\<close>,
  \<^verbatim>\<open>\s*\<close> gives back its last character. The optional part after the full stop is
  taken when it matches.
\<close>

definition match_day :: "pystr \<Rightarrow> (pystr \<times> pystr \<times> pystr) option" where
  "match_day s =
     (case match_ci (str ''Day'') s of
        None \<Rightarrow> None
      | Some r1 \<Rightarrow>
          (let r2 = dropWhile is_space r1;
               day_num = takeWhile is_digit r2
           in if day_num = [] then None
              else (case dropWhile is_digit r2 of
                      [] \<Rightarrow> None
                    | c # r4 \<Rightarrow>
                        if c \<noteq> 58 then None
                        else (let ws = takeWhile is_space r4;
                                  r5 = dropWhile is_space r4;
                                  body = takeWhile (\<lambda>c. c \<noteq> 46) r5
                              in if body = [] \<and> ws = [] then None
                                 else (let sentence = (if body = [] then [last ws] else body)
                                       in case dropWhile (\<lambda>c. c \<noteq> 46) r5 of
                                            [] \<Rightarrow> Some (day_num, sentence, [])
                                          | dot # r6 \<Rightarrow>
                                              (case dot_tail r6 of
                                                 None \<Rightarrow> Some (day_num, sentence, dot # r6)
                                               | Some t \<Rightarrow>
                                                   Some (day_num, sentence @ dot # t,
                                                         drop (length t) r6)))))))"

text \<open>
  \<^verbatim>\<open>re.findall\<close>: the matches from left to right, each search starting where the
  match before ended. \<open>findall_from k s\<close> reads \<open>s\<close> with \<open>k\<close> characters still to
  pass, those of the match before.
\<close>

definition match_length :: "pystr \<Rightarrow> pystr \<Rightarrow> nat" where
  "match_length s rest = length s - length rest"

fun findall_from :: "nat \<Rightarrow> pystr \<Rightarrow> (pystr \<times> pystr) list" where
  "findall_from k [] = []"
| "findall_from (Suc k) (c # cs) = findall_from k cs"
| "findall_from 0 (c # cs) =
     (case match_day (c # cs) of
        None \<Rightarrow> findall_from 0 cs
      | Some (day_num, task_content, rest) \<Rightarrow>
          (day_num, task_content) # findall_from (match_length (c # cs) rest - 1) cs)"

definition findall_day_pattern :: "pystr \<Rightarrow> (pystr \<times> pystr) list" where
  "findall_day_pattern ai_response = findall_from 0 ai_response"

subsection \<open>The condition and the title of a plan\<close>

text \<open>
  The condition is searched in the text in lower case, with the pattern
  \<^verbatim>\<open>back\s*pain|neck\s*pain|stress|anxiety|injury|muscle|joint\<close>: the match is at the
  first position where an alternative matches, by the first alternative that does.
  \<open>match_lit lit s\<close> is the rest of \<open>s\<close> after the literal \<open>lit\<close>.
\<close>

definition match_lit :: "pystr \<Rightarrow> pystr \<Rightarrow> pystr option" where
  "match_lit lit s = (if prefix lit s then Some (drop (length lit) s) else None)"

definition match_pain :: "pystr \<Rightarrow> pystr \<Rightarrow> pystr option" where
  "match_pain part s =
     (case match_lit part s of
        None \<Rightarrow> None
      | Some r \<Rightarrow>
          (case match_lit (str ''pain'') (dropWhile is_space r) of
             None \<Rightarrow> None
           | Some rest \<Rightarrow> Some (take (length s - length rest) s)))"

definition condition_at :: "pystr \<Rightarrow> pystr option" where
  "condition_at s =
     (case match_pain (str ''back'') s of
        Some m \<Rightarrow> Some m
      | None \<Rightarrow>
          (case match_pain (str ''neck'') s of
             Some m \<Rightarrow> Some m
           | None \<Rightarrow>
               find_one (\<lambda>word. prefix word s)
                 [str ''stress'', str ''anxiety'', str ''injury'', str ''muscle'', str ''joint'']))"

text \<open>
  The two title patterns, \<^verbatim>\<open>(\d+)-Day\s+([^:]+(?:Plan|Management|Program))\<close> and
  \<^verbatim>\<open>([^:]+(?:Plan|Management|Program))\<close>, under \<^verbatim>\<open>IGNORECASE\<close>. \<open>keyword_length s\<close> is
  the length of the keyword at the head of \<open>s\<close>. \<^verbatim>\<open>[^:]+\<close> takes every character up
  to the next colon and gives characters back until a keyword follows: \<open>title_end s\<close>
  is the length of the longest text of \<open>s\<close> made of characters other than the colon
  and then a keyword.
\<close>

definition keyword_length :: "pystr \<Rightarrow> nat option" where
  "keyword_length s =
     (if match_ci (str ''Plan'') s \<noteq> None then Some 4
      else if match_ci (str ''Management'') s \<noteq> None then Some 10
      else if match_ci (str ''Program'') s \<noteq> None then Some 7
      else None)"

fun title_end :: "pystr \<Rightarrow> nat option" where
  "title_end [] = None"
| "title_end (c # cs) =
     (case (if c = 58 then None else title_end cs) of
        Some n \<Rightarrow> Some (Suc n)
      | None \<Rightarrow> keyword_length (c # cs))"

text \<open>The second pattern at the head of \<open>s\<close>: at least one character before the keyword.\<close>

definition title_at :: "pystr \<Rightarrow> pystr option" where
  "title_at s =
     (case s of
        [] \<Rightarrow> None
      | c # cs \<Rightarrow>
          if c = 58 then None
          else (case title_end cs of None \<Rightarrow> None | Some n \<Rightarrow> Some (take (Suc n) s)))"

text \<open>
  The first pattern at the head of \<open>s\<close>: the two groups. When the white space after
  \<^verbatim>\<open>-Day\<close> is followed at once by the keyword, \<^verbatim>\<open>\s+\<close> gives back its last character
  to \<^verbatim>\<open>[^:]+\<close>, which needs one.
\<close>

definition day_title_at :: "pystr \<Rightarrow> (pystr \<times> pystr) option" where
  "day_title_at s =
     (let days = takeWhile is_digit s
      in if days = [] then None
         else (case match_ci (str ''-Day'') (dropWhile is_digit s) of
                 None \<Rightarrow> None
               | Some r \<Rightarrow>
                   (let ws = takeWhile is_space r; r' = dropWhile is_space r
                    in if ws = [] then None
                       else (case title_at r' of
                               Some title \<Rightarrow> Some (days, title)
                             | None \<Rightarrow>
                                 (case keyword_length r' of
                                    None \<Rightarrow> None
                                  | Some n \<Rightarrow>
                                      if length ws \<ge> 2 then Some (days, last ws # take n r')
                                      else None)))))"

text \<open>\<^verbatim>\<open>re.search\<close>: the match at the first position that has one.\<close>

fun search :: "(pystr \<Rightarrow> 'a option) \<Rightarrow> pystr \<Rightarrow> 'a option" where
  "search at [] = at []"
| "search at (c # cs) = (case at (c # cs) of Some m \<Rightarrow> Some m | None \<Rightarrow> search at cs)"

text \<open>The loop over the two title patterns, with its default.\<close>

definition guess_plan_name :: "pystr \<Rightarrow> pystr" where
  "guess_plan_name ai_response =
     (case search day_title_at ai_response of
        Some (days, title) \<Rightarrow> days @ str ''-Day '' @ title
      | None \<Rightarrow>
          (case search title_at ai_response of
             Some title \<Rightarrow> title
           | None \<Rightarrow> str ''Health Management Plan''))"

definition guess_condition :: "pystr \<Rightarrow> pystr" where
  "guess_condition ai_response =
     (case search condition_at (lower ai_response) of
        Some m \<Rightarrow> m
      | None \<Rightarrow> str ''health condition'')"

subsection \<open>The extraction result\<close>

text \<open>
  \<^verbatim>\<open>plan_data\<close>, the dictionary that the plan generator passes around. Each key may be
  absent. The values have the types that the prompt of the plan chain asks for and
  that the day-pattern path builds; \<open>pd_condition\<close>, \<open>pd_plan_name\<close>, \<open>pd_timeline_days\<close>
  and \<open>pd_tasks\<close> are the keys \<^verbatim>\<open>condition\<close>, \<^verbatim>\<open>plan_name\<close>, \<^verbatim>\<open>timeline_days\<close> and
  \<^verbatim>\<open>tasks\<close>.
\<close>

record plan_data =
  needs_plan :: "bool option"
  pd_condition :: "pystr option"
  pd_plan_name :: "pystr option"
  pd_timeline_days :: "int option"
  pd_tasks :: "pystr list option"
  error :: "pystr option"
  reason :: "pystr option"
  progress_request :: "bool option"
  existing_plan :: "bool option"

definition no_keys :: plan_data where
  "no_keys = \<lparr>needs_plan = None, pd_condition = None, pd_plan_name = None,
               pd_timeline_days = None, pd_tasks = None, error = None, reason = None,
               progress_request = None, existing_plan = None\<rparr>"

text \<open>\<^verbatim>\<open>dict.get(key, default)\<close>.\<close>

definition get_or :: "'a option \<Rightarrow> 'a \<Rightarrow> 'a" where
  "get_or v d = (case v of None \<Rightarrow> d | Some x \<Rightarrow> x)"

subsection \<open>extract_daily_tasks_from_response\<close>

text \<open>\<^verbatim>\<open>str.strip()\<close> and \<^verbatim>\<open>' '.join(words)\<close>.\<close>

definition strip :: "pystr \<Rightarrow> pystr" where
  "strip s = rev (dropWhile is_space (rev (dropWhile is_space s)))"

fun join_space :: "pystr list \<Rightarrow> pystr" where
  "join_space [] = []"
| "join_space [w] = w"
| "join_space (w # ws) = w @ 32 # join_space ws"

text \<open>The body of the loop over the matches: the name of the task of one match.\<close>

definition task_of_match :: "pystr \<times> pystr \<Rightarrow> pystr" where
  "task_of_match m =
     (let day_num = fst m;
          task_content = snd m;
          task_clean = strip task_content;
          task_clean = join_space (split task_clean);
          task_clean = (if length task_clean > 200 then take 197 task_clean @ str ''...''
                        else task_clean)
      in str ''Day '' @ day_num @ str '': '' @ task_clean)"

definition extract_daily_tasks_from_response :: "pystr \<Rightarrow> bool \<times> plan_data" where
  "extract_daily_tasks_from_response ai_response =
     (let matches = findall_day_pattern ai_response
      in if matches = []
         then (False, no_keys\<lparr>error := Some (str ''No daily tasks found in response'')\<rparr>)
         else (let cond = guess_condition ai_response;
                   pname = guess_plan_name ai_response;
                   timeline = int (length matches);
                   task_names = map task_of_match matches
               in (True, no_keys\<lparr>needs_plan := Some True, pd_condition := Some cond,
                                  pd_plan_name := Some pname,
                                  pd_timeline_days := Some (min timeline 7),
                                  pd_tasks := Some task_names\<rparr>)))"

subsection \<open>analyze_for_plan_generation\<close>

text \<open>
  The text-generation call is outside the program. What \<^verbatim>\<open>analyze_for_plan_generation\<close>
  does with its reply depends on the outcome of three library calls: the chain
  raises; or no fenced \<^verbatim>\<open>json\<close> block is found in the reply; or \<^verbatim>\<open>json.loads\<close> rejects
  the block; or it yields the dictionary of the block.
\<close>

datatype chain_reply =
  Chain_raised pystr
| No_json_block
| Json_decode_error pystr
| Json_object plan_data

fun analyze_for_plan_generation :: "chain_reply \<Rightarrow> bool \<times> plan_data" where
  "analyze_for_plan_generation (Chain_raised e) = (False, no_keys\<lparr>error := Some e\<rparr>)"
| "analyze_for_plan_generation No_json_block =
     (False, no_keys\<lparr>error := Some (str ''No JSON found in response'')\<rparr>)"
| "analyze_for_plan_generation (Json_decode_error e) =
     (False, no_keys\<lparr>error := Some (str ''JSON parsing error: '' @ e)\<rparr>)"
| "analyze_for_plan_generation (Json_object pd) = (get_or (needs_plan pd) False, pd)"

subsection \<open>create_and_store_plan\<close>

definition create_and_store_plan ::
  "pystr \<Rightarrow> pystr \<Rightarrow> int \<Rightarrow> db_manager \<Rightarrow> plan_data \<Rightarrow> db_manager \<times> pystr option" where
  "create_and_store_plan new_id dummy_id now self pd =
     (if \<not> get_or (needs_plan pd) False then (self, None)
      else (let pname = get_or (pd_plan_name pd) (str ''Health Plan'');
                cond = get_or (pd_condition pd) (str ''General Health'');
                days = min (get_or (pd_timeline_days pd) 7) 7;
                task_names = get_or (pd_tasks pd) []
            in if task_names = [] then (self, None)
               else (let (self', pid) =
                           create_health_plan new_id dummy_id now self pname cond days task_names
                     in (self', Some pid))))"

subsection \<open>process_message_for_plan and process_ai_response_for_plan\<close>

definition progress_keywords :: "pystr list" where
  "progress_keywords = [str ''mark'', str ''progress'', str ''completed'', str ''finished'',
     str ''done'', str ''update'', str ''track'']"

text \<open>
  The check for an active plan with a similar condition: the first active plan one of
  whose condition words longer than 3 characters occurs in the given text.
\<close>

definition similar_plan :: "pystr \<Rightarrow> plan_view list \<Rightarrow> plan_view option" where
  "similar_plan text existing_plans =
     find_one (\<lambda>plan. list_ex (\<lambda>word. is_in word text)
                         (long_words (lower (v_condition plan)))) existing_plans"

definition process_message_for_plan ::
  "pystr \<Rightarrow> pystr \<Rightarrow> int \<Rightarrow> db_manager \<Rightarrow> chain_reply \<Rightarrow> pystr
     \<Rightarrow> db_manager \<times> bool \<times> pystr option \<times> plan_data" where
  "process_message_for_plan new_id dummy_id now self reply user_message =
     (if list_ex (\<lambda>keyword. is_in keyword (lower user_message)) progress_keywords
      then (self, False, None, no_keys\<lparr>progress_request := Some True\<rparr>)
      else (case similar_plan (lower user_message) (get_active_plans self) of
              Some plan \<Rightarrow>
                (self, False, Some (plan_id plan),
                 no_keys\<lparr>existing_plan := Some True, pd_plan_name := Some (v_plan_name plan)\<rparr>)
            | None \<Rightarrow>
                (let (needs, pd) = analyze_for_plan_generation reply
                 in if needs \<and> error pd = None
                    then (let (self', pid) = create_and_store_plan new_id dummy_id now self pd
                          in (self', True, pid, pd))
                    else (self, False, None, pd))))"

definition process_ai_response_for_plan ::
  "pystr \<Rightarrow> pystr \<Rightarrow> int \<Rightarrow> db_manager \<Rightarrow> pystr
     \<Rightarrow> db_manager \<times> bool \<times> pystr option \<times> plan_data" where
  "process_ai_response_for_plan new_id dummy_id now self ai_response =
     (let (has_plan, pd) = extract_daily_tasks_from_response ai_response
      in if has_plan \<and> error pd = None
         then (case similar_plan (lower (get_or (pd_condition pd) [])) (get_active_plans self) of
                 Some plan \<Rightarrow>
                   (self, False, Some (plan_id plan),
                    no_keys\<lparr>existing_plan := Some True, pd_plan_name := Some (v_plan_name plan)\<rparr>)
               | None \<Rightarrow>
                   (let (self', pid) = create_and_store_plan new_id dummy_id now self pd
                    in (self', True, pid, pd)))
         else (self, False, None, pd))"

text \<open>
  The documents that a call adds to the plan collection: those of the collection
  afterwards that come after the documents it had before.
\<close>

definition added_plans :: "db_manager \<Rightarrow> db_manager \<Rightarrow> plan_doc list" where
  "added_plans self self' =
     (case plans_collection self of
        None \<Rightarrow> []
      | Some docs \<Rightarrow>
          (case plans_collection self' of None \<Rightarrow> [] | Some docs' \<Rightarrow> drop (length docs) docs'))"

section \<open>Example data\<close>

text \<open>
  A store with an active plan for back pain, whose first task was completed on
  the first of January, and a deactivated plan.
\<close>

definition back_pain_plan :: plan_doc where
  "back_pain_plan =
     \<lparr>doc_id = str ''p1'', user_id = default_user, plan_name = str ''7-Day Back Pain Plan'',
      condition = str ''back pain'', timeline_days = 7,
      tasks = [\<lparr>task_name = str ''Day 1: Gentle walking'', progress = [str ''2024-01-01'']\<rparr>,
               \<lparr>task_name = str ''Day 2: Stretch the lower back'', progress = []\<rparr>],
      active = True, created_at = 100, updated_at = 100\<rparr>"

definition flu_plan :: plan_doc where
  "flu_plan =
     \<lparr>doc_id = str ''p2'', user_id = default_user, plan_name = str ''Flu'',
      condition = str ''flu'', timeline_days = 3,
      tasks = [\<lparr>task_name = str ''Rest'', progress = []\<rparr>],
      active = False, created_at = 50, updated_at = 60\<rparr>"

text \<open>
  The word counters of two specialists. The days are those of January 2024, numbered
  by the day of the month.
\<close>

definition ruby_stats :: stats_doc where
  "ruby_stats =
     \<lparr>stats_user_id = default_user, specialist_name = str ''Ruby'',
      total_words_generated = Some 150, total_messages_sent = Some 3, last_activity = Some 90,
      daily_word_counts = Some [str ''2024-01-05'' \<mapsto> 90, str ''2024-01-09'' \<mapsto> 60]\<rparr>"

definition warren_stats :: stats_doc where
  "warren_stats =
     \<lparr>stats_user_id = default_user, specialist_name = str ''Dr_Warren'',
      total_words_generated = Some 45, total_messages_sent = Some 1, last_activity = Some 80,
      daily_word_counts = Some [str ''2024-01-09'' \<mapsto> 45]\<rparr>"

definition january_2024 :: "int \<Rightarrow> pystr" where
  "january_2024 d = str ''2024-01-'' @ [48 + nat (d div 10), 48 + nat (d mod 10)]"

definition january_display :: "pystr \<Rightarrow> pystr" where
  "january_display date_str = str ''Jan '' @ drop 8 date_str"

text \<open>A plan whose condition is the word of the code points 68, 304 and 350.\<close>

definition dental_plan :: plan_doc where
  "dental_plan =
     \<lparr>doc_id = str ''p5'', user_id = default_user, plan_name = str ''Flu'',
      condition = [68, 304, 350], timeline_days = 3,
      tasks = [\<lparr>task_name = str ''Rinse'', progress = []\<rparr>],
      active = True, created_at = 70, updated_at = 70\<rparr>"

definition example_db :: db_manager where
  "example_db = \<lparr>plans_collection = Some [flu_plan, back_pain_plan],
                  specialist_stats_collection = Some [ruby_stats, warren_stats]\<rparr>"

text \<open>
  A reply of the plan chain that asks for a plan of 14 days, and two answers of a
  specialist, with two and with nine day blocks.
\<close>

definition two_week_plan :: plan_data where
  "two_week_plan =
     no_keys\<lparr>needs_plan := Some True, pd_condition := Some (str ''knee pain''),
             pd_plan_name := Some (str ''Knee Recovery Plan''), pd_timeline_days := Some 14,
             pd_tasks := Some [str ''Ice the knee for 10 minutes'', str ''Do 5 leg raises'']\<rparr>"

definition stress_text :: pystr where
  "stress_text = str ''3-Day Stress Plan: Day 1: Breathe slowly. Day 2: Rest.''"

text \<open>An answer of nine lines, one day block on each, with no full stop.\<close>

definition nine_lines_text :: pystr where
  "nine_lines_text =
     str ''Day 1: Walk for ten minutes'' @ [10] @ str ''Day 2: Stretch the back'' @ [10] @
     str ''Day 3: Breathe slowly'' @ [10] @ str ''Day 4: Walk for twenty minutes'' @ [10] @
     str ''Day 5: Rest'' @ [10] @ str ''Day 6: Stretch again'' @ [10] @
     str ''Day 7: Swim'' @ [10] @ str ''Day 8: Walk uphill'' @ [10] @ str ''Day 9: Rest well''"

definition nine_days_text :: pystr where
  "nine_days_text =
     str ''Here is your plan. Day 1: Walk for ten minutes. Day 2: Stretch the back. '' @
     str ''Day 3: Breathe slowly. Day 4: Walk for twenty minutes. Day 5: Rest. '' @
     str ''Day 6: Stretch again. Day 7: Swim. Day 8: Walk uphill. Day 9: Rest well.''"

section \<open>Properties of the plan store\<close>

subsection \<open>Marking a task twice\<close>


lemma append_date_idem: "append_date tn date (append_date tn date ts) = append_date tn date ts"
  by (induction ts) auto

lemma append_date_names: "map task_name (append_date tn date ts) = map task_name ts"
  by (induction ts) auto

lemma find_one_update_one:
  assumes "\<And>d. doc_id (f d) = doc_id d" "\<And>d. user_id (f d) = user_id d"
  shows "find_one (id_user_filter pid) (update_one (id_filter pid) f docs) =
     (case find_one (id_filter pid) docs of None \<Rightarrow> None
      | Some a \<Rightarrow> if user_id a = default_user then Some (f a) else find_one (id_user_filter pid) docs)"
  using assms by (induction docs) (auto simp: find_one_def id_user_filter_def id_filter_def split: option.splits)

lemma find_one_user_imp: "find_one (id_user_filter pid) docs = Some p \<Longrightarrow> \<exists>a. find_one (id_filter pid) docs = Some a"
  by (induction docs) (auto simp: find_one_def id_user_filter_def id_filter_def split: if_splits)

lemma find_one_both: "find_one (id_filter pid) docs = Some a \<Longrightarrow> user_id a = default_user \<Longrightarrow> find_one (id_user_filter pid) docs = Some a"
  by (induction docs) (auto simp: find_one_def id_user_filter_def id_filter_def split: if_splits)

lemma update_one_twice:
  "update_one P (\<lambda>d. d\<lparr>tasks := T, updated_at := n2\<rparr>) (update_one P (\<lambda>d. d\<lparr>tasks := T, updated_at := n1\<rparr>) docs)
   = update_one P (\<lambda>d. d\<lparr>tasks := T, updated_at := n2\<rparr>) docs"
  if "\<And>d n. P (d\<lparr>tasks := T, updated_at := n\<rparr>) = P d"
  using that by (induction docs) auto

lemma map_tasks_update_one:
  "map tasks (update_one P (\<lambda>d. d\<lparr>tasks := T, updated_at := n\<rparr>) docs) = map tasks (update_one P (\<lambda>d. d\<lparr>tasks := T, updated_at := m\<rparr>) docs)"
  by (induction docs) auto

text \<open>
  Claim C1. Marking a task complete is idempotent. For every plan id, task name and
  date: when the plan is found and has a task of that name, two calls with the same
  arguments both return \<open>True\<close>, and the completion dates of the task read back after
  the second call are the list read back after the first (the same elements, the
  same length); the second call changes no task of any plan.
\<close>

theorem update_task_progress_idempotent:
  assumes coll: "plans_collection self = Some docs"
      and found: "find_one (id_user_filter pid) docs = Some plan"
      and task: "tn \<in> task_name ` set (tasks plan)"
  shows "\<exists>self1 self2 dates.
           update_task_progress now1 self pid tn date = (self1, True) \<and>
           update_task_progress now2 self1 pid tn date = (self2, True) \<and>
           completion_dates self1 pid tn = Some dates \<and>
           completion_dates self2 pid tn = Some dates \<and>
           map_option (map tasks) (plans_collection self2) = map_option (map tasks) (plans_collection self1)"
proof -
  define T where "T = append_date tn date (tasks plan)"
  define f where "f n = (\<lambda>d::plan_doc. d\<lparr>tasks := T, updated_at := n\<rparr>)" for n
  define docs1 where "docs1 = update_one (id_filter pid) (f now1) docs"
  define self1 where "self1 = self\<lparr>plans_collection := Some docs1\<rparr>"
  have r1: "update_task_progress now1 self pid tn date = (self1, True)"
    using coll found by (simp add: update_task_progress_def self1_def docs1_def f_def T_def)
  obtain a where a: "find_one (id_filter pid) docs = Some a"
    using find_one_user_imp[OF found] by blast
  have fo1: "find_one (id_user_filter pid) docs1 =
      (if user_id a = default_user then Some (f now1 a) else Some plan)"
    unfolding docs1_def using a found
    by (subst find_one_update_one) (simp_all add: f_def)
  obtain plan1 where plan1: "find_one (id_user_filter pid) docs1 = Some plan1"
    and T1: "append_date tn date (tasks plan1) = T"
  proof (cases "user_id a = default_user")
    case True
    have "append_date tn date (tasks (f now1 a)) = T"
      by (simp add: f_def T_def append_date_idem)
    with True fo1 that show ?thesis by simp
  next
    case False
    with fo1 that show ?thesis by (simp add: T_def)
  qed
  define docs2 where "docs2 = update_one (id_filter pid) (f now2) docs1"
  define self2 where "self2 = self1\<lparr>plans_collection := Some docs2\<rparr>"
  have r2: "update_task_progress now2 self1 pid tn date = (self2, True)"
    using plan1 T1 by (simp add: update_task_progress_def self1_def self2_def docs2_def f_def)
  have docs2_eq: "docs2 = update_one (id_filter pid) (f now2) docs"
    unfolding docs2_def docs1_def f_def by (rule update_one_twice) (simp add: id_filter_def)
  have same_tasks: "map tasks docs2 = map tasks docs1"
    unfolding docs2_eq docs1_def f_def by (rule map_tasks_update_one)
  have fo2: "find_one (id_user_filter pid) docs2 =
      (if user_id a = default_user then Some (f now2 a) else Some plan)"
    unfolding docs2_eq using a found
    by (subst find_one_update_one) (simp_all add: f_def)
  have names: "tn \<in> task_name ` set T" "tn \<in> task_name ` set (tasks plan)"
    using task append_date_names[of tn date "tasks plan"] unfolding T_def
    by (metis list.set_map)+
  have ex: "\<exists>t. find_one (\<lambda>t. task_name t = tn) ts = Some t" if "tn \<in> task_name ` set ts" for ts :: "task_progress list"
    using that by (induction ts) (auto simp: find_one_def)
  define ts where "ts = (if user_id a = default_user then T else tasks plan)"
  have c1: "completion_dates self1 pid tn = map_option progress (find_one (\<lambda>t. task_name t = tn) ts)"
    by (simp add: completion_dates_def self1_def fo1 f_def ts_def)
  have c2: "completion_dates self2 pid tn = map_option progress (find_one (\<lambda>t. task_name t = tn) ts)"
    by (simp add: completion_dates_def self1_def self2_def fo2 f_def ts_def)
  have "tn \<in> task_name ` set ts"
    using names by (simp add: ts_def)
  from ex[OF this] obtain t where "find_one (\<lambda>t. task_name t = tn) ts = Some t" ..
  with c1 c2 have d1: "completion_dates self1 pid tn = Some (progress t)"
    and d2: "completion_dates self2 pid tn = Some (progress t)" by simp_all
  show ?thesis using r1 r2 d1 d2 same_tasks by (simp add: self1_def self2_def)
qed


lemmas example_defs = example_db_def back_pain_plan_def flu_plan_def default_user_def str_def

theorem update_task_progress_idempotent_witness:
  "plans_collection example_db = Some [flu_plan, back_pain_plan] \<and>
   find_one (id_user_filter (str ''p1'')) [flu_plan, back_pain_plan] = Some back_pain_plan \<and>
   str ''Day 2: Stretch the lower back'' \<in> task_name ` set (tasks back_pain_plan) \<and>
   (\<exists>self1 self2 dates.
      update_task_progress 200 example_db (str ''p1'') (str ''Day 2: Stretch the lower back'')
        (str ''2024-01-02'') = (self1, True) \<and>
      update_task_progress 300 self1 (str ''p1'') (str ''Day 2: Stretch the lower back'')
        (str ''2024-01-02'') = (self2, True) \<and>
      completion_dates self1 (str ''p1'') (str ''Day 2: Stretch the lower back'') = Some dates \<and>
      completion_dates self2 (str ''p1'') (str ''Day 2: Stretch the lower back'') = Some dates \<and>
      map_option (map tasks) (plans_collection self2) = map_option (map tasks) (plans_collection self1))"
proof -
  have h1: "plans_collection example_db = Some [flu_plan, back_pain_plan]"
    by (simp add: example_db_def)
  have h2: "find_one (id_user_filter (str ''p1'')) [flu_plan, back_pain_plan] = Some back_pain_plan"
    by (simp add: find_one_def id_user_filter_def example_defs)
  have h3: "str ''Day 2: Stretch the lower back'' \<in> task_name ` set (tasks back_pain_plan)"
    by (simp add: example_defs)
  from update_task_progress_idempotent [OF h1 h2 h3, of 200 "str ''2024-01-02''" 300] h1 h2 h3
  show ?thesis by blast
qed

subsection \<open>Completion dates are never removed\<close>

lemma task_grows_refl: "task_grows t t"
  by (simp add: task_grows_def)

lemma tasks_grow_refl: "list_all2 task_grows ts ts"
  by (simp add: list_all2_refl task_grows_refl)

lemma plan_grows_refl: "plan_grows d d"
  by (simp add: plan_grows_def tasks_grow_refl)

lemma task_grows_trans: "task_grows a b \<Longrightarrow> task_grows b c \<Longrightarrow> task_grows a c"
  by (auto simp: task_grows_def)

lemma plan_grows_trans: "plan_grows a b \<Longrightarrow> plan_grows b c \<Longrightarrow> plan_grows a c"
proof -
  assume ab: "plan_grows a b" and bc: "plan_grows b c"
  have "list_all2 task_grows (tasks a) (tasks c)"
  proof (rule list_all2_trans)
    show "list_all2 task_grows (tasks a) (tasks b)" using ab by (simp add: plan_grows_def)
    show "list_all2 task_grows (tasks b) (tasks c)" using bc by (simp add: plan_grows_def)
  qed (rule task_grows_trans)
  with ab bc show ?thesis by (simp add: plan_grows_def)
qed

lemma completions_grow_refl: "completions_grow docs docs"
  by (simp add: completions_grow_def list_all2_refl plan_grows_refl)

lemma completions_grow_trans:
  assumes "completions_grow xs ys" "completions_grow ys zs"
  shows "completions_grow xs zs"
proof -
  from assms have len: "length xs \<le> length ys" "length ys \<le> length zs"
    and xy: "list_all2 plan_grows xs (take (length xs) ys)"
    and yz: "list_all2 plan_grows ys (take (length ys) zs)"
    by (simp_all add: completions_grow_def)
  from yz have "list_all2 plan_grows (take (length xs) ys) (take (length xs) (take (length ys) zs))"
    by (rule list_all2_takeI)
  with len have "list_all2 plan_grows (take (length xs) ys) (take (length xs) zs)"
    by (simp add: min_def)
  with xy have "list_all2 plan_grows xs (take (length xs) zs)"
    using list_all2_trans[of plan_grows plan_grows plan_grows] plan_grows_trans by blast
  with len show ?thesis by (simp add: completions_grow_def)
qed

lemma task_grows_append: "task_grows t (t\<lparr>progress := progress t @ [date]\<rparr>)"
  by (auto simp: task_grows_def)

lemma append_date_grows: "list_all2 task_grows ts (append_date tn date ts)"
  by (induction ts) (simp_all add: tasks_grow_refl task_grows_refl task_grows_append)

lemma find_one_mem: "find_one P xs = Some x \<Longrightarrow> x \<in> set xs \<and> P x"
  by (induction xs) (auto simp: find_one_def split: if_splits)

lemma update_one_length [simp]: "length (update_one P f xs) = length xs"
  by (induction xs) auto

lemma update_one_ids: "(\<And>d. doc_id (f d) = doc_id d) \<Longrightarrow> map doc_id (update_one P f docs) = map doc_id docs"
  by (induction docs) auto

lemma update_one_grows:
  assumes "\<And>d. P d \<Longrightarrow> d \<in> set docs \<Longrightarrow> plan_grows d (f d)"
  shows "list_all2 plan_grows docs (update_one P f docs)"
  using assms by (induction docs) (auto simp: plan_grows_refl list_all2_refl)

lemma unique_found:
  assumes "unique_ids docs" "find_one (id_user_filter pid) docs = Some plan"
    and "d \<in> set docs" "id_filter pid d"
  shows "d = plan"
proof -
  from find_one_mem[OF assms(2)] have "plan \<in> set docs" "doc_id plan = pid"
    by (simp_all add: id_user_filter_def)
  moreover from assms(4) have "doc_id d = pid" by (simp add: id_filter_def)
  moreover from assms(1) have "inj_on doc_id (set docs)"
    by (simp add: unique_ids_def distinct_map)
  ultimately show ?thesis using assms(3) by (simp add: inj_on_def)
qed

lemma update_task_progress_grows:
  assumes "unique_ids docs" "plans_collection self = Some docs"
  shows "\<exists>docs'. plans_collection (fst (update_task_progress now self pid tn date)) = Some docs' \<and>
           unique_ids docs' \<and> completions_grow docs docs'"
proof (cases "find_one (id_user_filter pid) docs")
  case None
  with assms show ?thesis
    by (simp add: update_task_progress_def completions_grow_refl)
next
  case (Some plan)
  let ?f = "\<lambda>d. d\<lparr>tasks := append_date tn date (tasks plan), updated_at := now\<rparr>"
  let ?docs' = "update_one (id_filter pid) ?f docs"
  have "list_all2 plan_grows docs ?docs'"
  proof (rule update_one_grows)
    fix d assume "id_filter pid d" "d \<in> set docs"
    with unique_found[OF assms(1) Some] have "d = plan" by blast
    then show "plan_grows d (?f d)"
      by (simp add: plan_grows_def append_date_grows)
  qed
  then have "completions_grow docs ?docs'"
    by (simp add: completions_grow_def)
  moreover have "unique_ids ?docs'"
    using assms(1) by (simp add: unique_ids_def update_one_ids)
  ultimately show ?thesis
    using assms(2) Some by (simp add: update_task_progress_def)
qed

lemma deactivate_plan_grows:
  assumes "unique_ids docs" "plans_collection self = Some docs"
  shows "\<exists>docs'. plans_collection (fst (deactivate_plan now self pid)) = Some docs' \<and>
           unique_ids docs' \<and> completions_grow docs docs'"
proof -
  let ?f = "\<lambda>d::plan_doc. d\<lparr>active := False, updated_at := now\<rparr>"
  let ?docs' = "update_one (id_user_filter pid) ?f docs"
  have "list_all2 plan_grows docs ?docs'"
    by (rule update_one_grows) (simp add: plan_grows_def tasks_grow_refl)
  then have "completions_grow docs ?docs'"
    by (simp add: completions_grow_def)
  moreover have "unique_ids ?docs'"
    using assms(1) by (simp add: unique_ids_def update_one_ids)
  ultimately show ?thesis
    using assms(2) by (simp add: deactivate_plan_def Let_def)
qed

lemma create_health_plan_grows:
  assumes "unique_ids docs" "plans_collection self = Some docs"
  shows "\<exists>docs'. plans_collection (fst (create_health_plan new_id dummy_id now self pname cond days tns)) = Some docs' \<and>
           unique_ids docs' \<and> completions_grow docs docs'"
proof (cases "new_id \<in> set (map doc_id docs)")
  case True
  with assms show ?thesis
    by (simp add: create_health_plan_def insert_one_def Let_def completions_grow_refl)
next
  case False
  with assms show ?thesis
    by (simp add: create_health_plan_def insert_one_def Let_def unique_ids_def
        completions_grow_def list_all2_refl plan_grows_refl)
qed

lemma apply_op_grows:
  assumes "unique_ids docs" "plans_collection self = Some docs"
  shows "\<exists>docs'. plans_collection (apply_op self op) = Some docs' \<and>
           unique_ids docs' \<and> completions_grow docs docs'"
proof (cases op)
  case (Pair now o')
  then show ?thesis
    using assms update_task_progress_grows deactivate_plan_grows create_health_plan_grows
    by (cases o') simp_all
qed

lemma run_ops_grows:
  assumes "unique_ids docs" "plans_collection self = Some docs"
  shows "\<exists>docs'. plans_collection (run_ops self ops) = Some docs' \<and>
           unique_ids docs' \<and> completions_grow docs docs'"
  using assms
proof (induction ops arbitrary: self docs)
  case Nil
  then show ?case by (simp add: run_ops_def completions_grow_refl)
next
  case (Cons op ops)
  from apply_op_grows[OF Cons.prems, of op] obtain docs1
    where 1: "plans_collection (apply_op self op) = Some docs1" "unique_ids docs1"
      "completions_grow docs docs1" by blast
  from Cons.IH[OF 1(2) 1(1)] obtain docs2
    where 2: "plans_collection (run_ops (apply_op self op) ops) = Some docs2" "unique_ids docs2"
      "completions_grow docs1 docs2" by blast
  from 1(3) 2(3) have "completions_grow docs docs2" by (rule completions_grow_trans)
  with 2 show ?case by (simp add: run_ops_def)
qed

text \<open>
  Claim C10. Completion sets only grow. For every collection with unique ids and
  every run of \<open>create_health_plan\<close>, \<open>update_task_progress\<close> and \<open>deactivate_plan\<close>
  calls, every plan of the collection is still there afterwards, in its place and
  under its id, with the same tasks by name, and every task has all the completion
  dates it had before.
\<close>

theorem completion_sets_only_grow:
  assumes "unique_ids docs" and "plans_collection self = Some docs"
  shows "\<exists>docs'. plans_collection (run_ops self ops) = Some docs' \<and> completions_grow docs docs'"
  using run_ops_grows[OF assms, of ops] by blast


theorem completion_sets_only_grow_witness:
  "unique_ids [flu_plan, back_pain_plan] \<and>
   plans_collection example_db = Some [flu_plan, back_pain_plan] \<and>
   (\<exists>docs'. plans_collection
        (run_ops example_db
           [(200, Update_task_progress (str ''p1'') (str ''Day 1: Gentle walking'') (str ''2024-01-02'')),
            (300, Deactivate_plan (str ''p1'')),
            (400, Create_health_plan (str ''p3'') (str ''p4'') (str ''Plan'') (str ''stress'') 9
                    [str ''Breathe''])]) = Some docs' \<and>
      completions_grow [flu_plan, back_pain_plan] docs')"
proof -
  have h1: "unique_ids [flu_plan, back_pain_plan]"
    by (simp add: unique_ids_def example_defs)
  have h2: "plans_collection example_db = Some [flu_plan, back_pain_plan]"
    by (simp add: example_db_def)
  from completion_sets_only_grow [OF h1 h2] h1 h2 show ?thesis by blast
qed

subsection \<open>The value returned by update_task_progress\<close>

lemma update_task_progress_returns:
  "snd (update_task_progress now self pid tn date) =
     (\<exists>docs plan. plans_collection self = Some docs \<and>
        find_one (id_user_filter pid) docs = Some plan)"
  by (auto simp: update_task_progress_def split: option.splits)

text \<open>
  Claim C2. \<open>update_task_progress\<close> returns \<open>False\<close> when the plan is not found (the
  lemma above), but a task name that no task of the plan carries does not make it
  return \<open>False\<close>: on the example store, for the plan \<open>p1\<close> and the task name
  \<open>Swim\<close>, which the plan does not have, the call writes the tasks back unchanged,
  sets \<open>updated_at\<close> and returns \<open>True\<close>.
\<close>

theorem update_task_progress_unknown_task:
  "str ''Swim'' \<notin> task_name ` set (tasks back_pain_plan) \<and>
   update_task_progress 200 example_db (str ''p1'') (str ''Swim'') (str ''2024-01-02'') =
     (example_db\<lparr>plans_collection := Some [flu_plan, back_pain_plan\<lparr>updated_at := 200\<rparr>]\<rparr>, True)"
  by (simp add: update_task_progress_def find_one_def id_user_filter_def id_filter_def
      example_defs)

section \<open>Properties of the text operations\<close>

lemma split_from_words:
  assumes "u \<in> set (split_from w s)" "\<forall>c \<in> set w. \<not> is_space c"
  shows "u \<noteq> [] \<and> (\<forall>c \<in> set u. \<not> is_space c)"
  using assms
proof (induction s arbitrary: w)
  case Nil
  then show ?case by (auto split: if_splits)
next
  case (Cons c cs)
  show ?case
  proof (cases "is_space c")
    case True
    with Cons.prems have "u = w \<and> w \<noteq> [] \<or> u \<in> set (split_from [] cs)"
      by (auto split: if_splits)
    then show ?thesis
    proof
      assume "u = w \<and> w \<noteq> []"
      with Cons.prems(2) show ?thesis by simp
    next
      assume "u \<in> set (split_from [] cs)"
      then show ?thesis by (rule Cons.IH) simp
    qed
  next
    case False
    with Cons.prems(1) have "u \<in> set (split_from (w @ [c]) cs)" by simp
    then show ?thesis
      by (rule Cons.IH) (use Cons.prems(2) False in auto)
  qed
qed

lemma split_words: "u \<in> set (split s) \<Longrightarrow> u \<noteq> [] \<and> (\<forall>c \<in> set u. \<not> is_space c)"
  using split_from_words[of u "[]" s] by (simp add: split_def)

lemma prefix_without_head: "prefix v (c # ys) \<Longrightarrow> c \<notin> set v \<Longrightarrow> v = []"
  by (cases v) auto

lemma sublist_around:
  assumes "sublist u (xs @ c # ys)" "c \<notin> set u"
  shows "sublist u xs \<or> sublist u ys"
proof -
  from assms(1) consider "sublist u xs" | "sublist u (c # ys)"
    | xs1 xs2 where "u = xs1 @ xs2" "suffix xs1 xs" "prefix xs2 (c # ys)"
    unfolding sublist_append by blast
  then show ?thesis
  proof cases
    case 1
    then show ?thesis ..
  next
    case 2
    then have "prefix u (c # ys) \<or> sublist u ys" by (simp add: sublist_Cons_right)
    with assms(2) show ?thesis by (auto dest: prefix_without_head)
  next
    case 3
    from 3(1) assms(2) have "c \<notin> set xs2" by simp
    with 3(3) have "xs2 = []" by (rule prefix_without_head)
    with 3(1,2) show ?thesis by auto
  qed
qed

lemma sublist_of_word:
  assumes "sublist u (w @ s)" "u \<noteq> []" "\<forall>c \<in> set u. \<not> is_space c"
  shows "\<exists>v \<in> set (split_from w s). sublist u v"
  using assms(1)
proof (induction s arbitrary: w)
  case Nil
  with assms(2) show ?case by auto
next
  case (Cons c cs)
  show ?case
  proof (cases "is_space c")
    case True
    with assms(3) have "c \<notin> set u" by blast
    with Cons.prems have "sublist u w \<or> sublist u cs" by (rule sublist_around)
    then show ?thesis
    proof
      assume "sublist u w"
      with assms(2) have "w \<noteq> []" by auto
      with True \<open>sublist u w\<close> show ?thesis by simp
    next
      assume "sublist u cs"
      then have "sublist u ([] @ cs)" by simp
      from Cons.IH[OF this] True show ?thesis by auto
    qed
  next
    case False
    from Cons.prems have "sublist u ((w @ [c]) @ cs)" by simp
    from Cons.IH[OF this] False show ?thesis by simp
  qed
qed

lemma is_in_word:
  assumes "is_in u s" "u \<noteq> []" "\<forall>c \<in> set u. \<not> is_space c"
  shows "\<exists>v \<in> set (split s). sublist u v"
  using sublist_of_word[of u "[]" s] assms by (simp add: is_in_def split_def)


section \<open>Properties of plan matching\<close>

lemma no_long_words:
  assumes "\<forall>w \<in> set (split text). length w \<le> 3"
  shows "long_words text = []"
  using assms by (auto simp: long_words_def filter_empty_conv)

lemma short_words_contain_no_long_word:
  assumes short: "\<forall>w \<in> set (split text). length w \<le> 3"
    and word: "word \<in> set (long_words other)"
  shows "\<not> is_in word text"
proof
  assume "is_in word text"
  moreover from word have "word \<in> set (split other)" and len: "length word > 3"
    by (simp_all add: long_words_def)
  then have "word \<noteq> []" "\<forall>c \<in> set word. \<not> is_space c"
    using split_words by blast+
  ultimately obtain v where "v \<in> set (split text)" "sublist word v"
    using is_in_word by blast
  then have "v \<in> set (split text)" "length v \<ge> length word"
    by (auto dest: sublist_length_le)
  with short len show False by fastforce
qed

text \<open>
  Claim C8, as the code has it. The matching works on the condition and the name in
  lower case. A plan whose condition and name in lower case, split into words, have no
  word longer than 3 characters is never the plan that matching returns, for any text
  and any list of plans: neither the target of a deactivation request (chat route)
  nor the target plan of a progress report (by the condition of the request or by the
  words of the message).
\<close>

theorem plan_without_long_words_never_matched:
  assumes "\<forall>w \<in> set (split (lower (v_condition plan)) @ split (lower (v_plan_name plan))).
             length w \<le> 3"
  shows "deactivation_target text plans \<noteq> Some plan \<and>
         resolve_target_plan request plans \<noteq> Some plan"
proof -
  from assms have c: "\<forall>w \<in> set (split (lower (v_condition plan))). length w \<le> 3"
    and n: "\<forall>w \<in> set (split (lower (v_plan_name plan))). length w \<le> 3" by simp_all
  have "\<not> plan_mentioned text plan"
    by (simp add: plan_mentioned_def no_long_words[OF c] no_long_words[OF n])
  then have 1: "deactivation_target text plans \<noteq> Some plan"
    unfolding deactivation_target_def by (auto dest: find_one_mem)
  have 2: "target_by_message m plans \<noteq> Some plan" for m
    unfolding target_by_message_def
    by (auto dest!: find_one_mem simp: no_long_words[OF c])
  have 3: "target_by_condition tc plans \<noteq> Some plan" for tc
    unfolding target_by_condition_def
    using short_words_contain_no_long_word[OF c]
    by (auto dest!: find_one_mem simp: list_ex_iff)
  from 2 3 have "resolve_target_plan request plans \<noteq> Some plan"
    by (simp add: resolve_target_plan_def split: option.splits)
  with 1 show ?thesis ..
qed

theorem plan_without_long_words_never_matched_witness:
  "list_all (\<lambda>w. length w \<le> 3)
     (split (lower (v_condition (view_of flu_plan))) @
      split (lower (v_plan_name (view_of flu_plan)))) \<and>
   deactivation_target (str ''stop my flu plan'') [view_of flu_plan, view_of back_pain_plan]
     \<noteq> Some (view_of flu_plan) \<and>
   resolve_target_plan
     \<lparr>message = str ''mark all done'', mark_all_complete = True,
      specific_plan_condition = Some (str ''influenza'')\<rparr>
     [view_of flu_plan, view_of back_pain_plan] \<noteq> Some (view_of flu_plan)"
proof -
  have h: "\<forall>w \<in> set (split (lower (v_condition (view_of flu_plan))) @
                    split (lower (v_plan_name (view_of flu_plan)))).
      length w \<le> 3"
    by (simp add: view_of_def split_def is_space_def lower_def lower_cp_def example_defs)
  from plan_without_long_words_never_matched [OF h] h show ?thesis
    by (simp add: list_all_iff)
qed

text \<open>
  Claim C8 as stated fails, since a word can grow in lower case: the capital I with
  dot (code point 304) becomes two code points. The condition of \<open>dental_plan\<close> is
  one word of 3 characters and its name is \<open>Flu\<close>, so no word of the two is longer than
  3; in lower case the condition has 4 characters, and a message that names it
  selects the plan.
\<close>

theorem plan_without_long_words_counterexample:
  "list_all (\<lambda>w. length w \<le> 3)
     (split (v_condition (view_of dental_plan)) @ split (v_plan_name (view_of dental_plan))) \<and>
   lower (v_condition (view_of dental_plan)) = [100, 105, 775, 351] \<and>
   deactivation_target (str ''stop my '' @ [68, 304, 350] @ str '' now'') [view_of dental_plan] =
     Some (view_of dental_plan)"
  by (simp add: deactivation_target_def plan_mentioned_def find_one_def view_of_def
      long_words_def split_def is_space_def lower_def lower_cp_def lower_table_def
      is_in_def sublist_code(3) dental_plan_def default_user_def str_def)

section \<open>Properties of the daily progress report\<close>


lemma find_one_None_iff: "find_one P xs = None \<longleftrightarrow> (\<forall>x \<in> set xs. \<not> P x)"
  by (auto simp: find_one_def find_None_iff)

lemma update_one_set_ids:
  assumes "\<And>d. doc_id (f d) = doc_id d" "\<And>d. user_id (f d) = user_id d"
    and "d \<in> set docs"
  shows "\<exists>d' \<in> set (update_one P f docs). doc_id d' = doc_id d \<and> user_id d' = user_id d"
  using assms(3) by (induction docs) (auto simp: assms(1,2))

lemma present_update_task_progress:
  assumes "present self pid"
  shows "present (fst (update_task_progress now self pid' tn date)) pid"
proof -
  from assms obtain docs plan where docs: "plans_collection self = Some docs"
    and plan: "find_one (id_user_filter pid) docs = Some plan"
    by (auto simp: present_def)
  show ?thesis
  proof (cases "find_one (id_user_filter pid') docs")
    case None
    with docs assms show ?thesis by (simp add: update_task_progress_def)
  next
    case (Some plan')
    let ?f = "\<lambda>d. d\<lparr>tasks := append_date tn date (tasks plan'), updated_at := now\<rparr>"
    from find_one_mem[OF plan] have "plan \<in> set docs" "id_user_filter pid plan" by simp_all
    with update_one_set_ids[of ?f plan docs "id_filter pid'"]
    obtain d' where "d' \<in> set (update_one (id_filter pid') ?f docs)" "id_user_filter pid d'"
      by (auto simp: id_user_filter_def)
    then have "find_one (id_user_filter pid) (update_one (id_filter pid') ?f docs) \<noteq> None"
      by (auto simp: find_one_None_iff)
    with docs Some show ?thesis
      by (auto simp: update_task_progress_def present_def)
  qed
qed

lemma mark_today_present:
  assumes "present self pid"
  shows "mark_today now today pid (self, acc) tn =
           (apply_op self (now, Update_task_progress pid tn today), acc @ [tn])"
proof -
  from assms have "snd (update_task_progress now self pid tn today)"
    by (simp add: update_task_progress_returns present_def)
  then show ?thesis
    by (simp add: mark_today_def split_beta)
qed

lemma mark_pairs:
  assumes "\<forall>p \<in> set ps. present self (fst p)"
  shows "foldl (\<lambda>st p. mark_today now today (fst p) st (snd p)) (self, acc) ps =
           (run_ops self (map (\<lambda>p. (now, Update_task_progress (fst p) (snd p) today)) ps),
            acc @ map snd ps)"
  using assms
proof (induction ps arbitrary: self acc)
  case Nil
  then show ?case by (simp add: run_ops_def)
next
  case (Cons p ps)
  let ?self' = "apply_op self (now, Update_task_progress (fst p) (snd p) today)"
  from Cons.prems have here: "present self (fst p)" by simp
  from Cons.prems have "\<forall>q \<in> set ps. present ?self' (fst q)"
    by (simp add: present_update_task_progress)
  from Cons.IH[OF this] mark_today_present[OF here]
  show ?case by (simp add: run_ops_def)
qed

lemma foldl_if_filter:
  "foldl (\<lambda>st x. if P x then g st x else st) st xs = foldl g st (filter P xs)"
  by (induction xs arbitrary: st) auto

lemma mark_confirmed_pairs:
  "mark_confirmed now today m st plan =
     foldl (\<lambda>st p. mark_today now today (fst p) st (snd p)) st (confirmed_tasks today m [plan])"
  by (simp add: mark_confirmed_def confirmed_tasks_def foldl_if_filter foldl_map)

lemma confirmed_tasks_Cons:
  "confirmed_tasks today m (plan # plans) = confirmed_tasks today m [plan] @ confirmed_tasks today m plans"
  by (simp add: confirmed_tasks_def)

lemma foldl_mark_confirmed:
  "foldl (mark_confirmed now today m) st plans =
     foldl (\<lambda>st p. mark_today now today (fst p) st (snd p)) st (confirmed_tasks today m plans)"
proof (induction plans arbitrary: st)
  case Nil
  then show ?case by (simp add: confirmed_tasks_def)
next
  case (Cons plan plans)
  let ?step = "\<lambda>st p. mark_today now today (fst p) st (snd p)"
  have "foldl (mark_confirmed now today m) st (plan # plans) =
          foldl ?step (mark_confirmed now today m st plan) (confirmed_tasks today m plans)"
    using Cons.IH by simp
  also have "\<dots> = foldl ?step (foldl ?step st (confirmed_tasks today m [plan]))
                      (confirmed_tasks today m plans)"
    by (simp only: mark_confirmed_pairs)
  also have "\<dots> = foldl ?step st (confirmed_tasks today m [plan] @ confirmed_tasks today m plans)"
    by simp
  finally show ?case by (simp only: confirmed_tasks_Cons[of today m plan plans])
qed

lemma active_plans_present:
  assumes "plan \<in> set (get_active_plans self)"
  shows "present self (plan_id plan)"
proof -
  from assms obtain docs where docs: "plans_collection self = Some docs"
    by (cases "plans_collection self") (auto simp: get_active_plans_def)
  with assms obtain d where d: "d \<in> set docs" "active_filter d" "plan = view_of d"
    by (auto simp: get_active_plans_def find_sorted_def)
  then have "id_user_filter (plan_id plan) d"
    by (simp add: id_user_filter_def active_filter_def view_of_def)
  with d(1) have "find_one (id_user_filter (plan_id plan)) docs \<noteq> None"
    by (auto simp: find_one_None_iff)
  with docs show ?thesis by (auto simp: present_def)
qed

lemma confirmed_tasks_ids:
  "p \<in> set (confirmed_tasks today m plans) \<Longrightarrow> \<exists>plan \<in> set plans. fst p = plan_id plan"
  by (auto simp: confirmed_tasks_def)

lemma individual_matching:
  assumes "\<not> mark_all_complete request"
    and "\<not> is_in (str ''mark all'') (lower (message request))"
    and "\<not> is_in (str ''all tasks'') (lower (message request))"
  shows "daily_progress_report now today self request =
    (run_ops self (map (\<lambda>p. (now, Update_task_progress (fst p) (snd p) today))
        (confirmed_tasks today (lower (message request)) (get_active_plans self))),
     map snd (confirmed_tasks today (lower (message request)) (get_active_plans self)))"
proof -
  let ?ps = "confirmed_tasks today (lower (message request)) (get_active_plans self)"
  have "\<forall>p \<in> set ?ps. present self (fst p)"
    using confirmed_tasks_ids active_plans_present by metis
  from mark_pairs[OF this, of now today "[]"] assms show ?thesis
    by (simp add: daily_progress_report_def foldl_mark_confirmed)
qed


lemma confirmed_tasks_mem:
  assumes "plan \<in> set plans" "task \<in> set (v_tasks plan)" "today \<notin> set (progress task)"
  shows "(plan_id plan, task_name task) \<in> set (confirmed_tasks today m plans) \<longleftrightarrow>
           task_confirmed m (task_name task)"
  using assms by (auto simp: confirmed_tasks_def)

lemma two_indicators_confirm:
  "2 \<le> length (filter (\<lambda>ind. is_in ind m) progress_indicators) \<Longrightarrow> task_confirmed m tn"
proof -
  assume two: "2 \<le> length (filter (\<lambda>ind. is_in ind m) progress_indicators)"
  then have "filter (\<lambda>ind. is_in ind m) progress_indicators \<noteq> []" by auto
  then have "list_ex (\<lambda>ind. is_in ind m) progress_indicators"
    by (simp add: filter_empty_conv list_ex_iff)
  with two show ?thesis by (simp add: task_confirmed_def)
qed

text \<open>
  Claim C5, as the code has it. In the individual matching of the daily progress
  report (no request to mark all tasks), the calls of \<open>update_task_progress\<close> issued
  are exactly those for the selected tasks, each returns \<open>True\<close>, and the names
  returned are the names of these tasks. A task of an active plan that is not
  completed today is among them if and only if the message contains one of the
  indicators and, besides, either some word of the message longer than 3 characters
  occurs in the task's name, or two or more indicators occur in the message. In
  particular a message with two or more indicators marks every such task.
\<close>

theorem individual_matching_marks:
  assumes "\<not> mark_all_complete request"
    and "\<not> is_in (str ''mark all'') (lower (message request))"
    and "\<not> is_in (str ''all tasks'') (lower (message request))"
  shows "let m = lower (message request);
             marked = confirmed_tasks today m (get_active_plans self)
         in daily_progress_report now today self request =
              (run_ops self (map (\<lambda>p. (now, Update_task_progress (fst p) (snd p) today)) marked),
               map snd marked) \<and>
            (\<forall>plan \<in> set (get_active_plans self). \<forall>task \<in> set (v_tasks plan).
               today \<notin> set (progress task) \<longrightarrow>
                 ((plan_id plan, task_name task) \<in> set marked \<longleftrightarrow>
                    task_confirmed m (task_name task)) \<and>
                 (2 \<le> length (filter (\<lambda>ind. is_in ind m) progress_indicators) \<longrightarrow>
                    (plan_id plan, task_name task) \<in> set marked))"
  using individual_matching[OF assms, of now today self]
  by (simp add: Let_def confirmed_tasks_mem two_indicators_confirm)

lemmas report_defs = daily_progress_report_def get_active_plans_def find_sorted_def
  active_filter_def view_of_def lower_def lower_cp_def is_in_def sublist_code(3)
  task_confirmed_def progress_indicators_def long_words_def split_def is_space_def
  mark_confirmed_def mark_today_def update_task_progress_def find_one_def
  id_user_filter_def id_filter_def confirmed_tasks_def

theorem individual_matching_marks_witness:
  "\<not> mark_all_complete \<lparr>message = str ''yes done, finished, all good'',
       mark_all_complete = False, specific_plan_condition = None\<rparr> \<and>
   \<not> is_in (str ''mark all'') (lower (str ''yes done, finished, all good'')) \<and>
   \<not> is_in (str ''all tasks'') (lower (str ''yes done, finished, all good'')) \<and>
   2 \<le> length (filter (\<lambda>ind. is_in ind (lower (str ''yes done, finished, all good'')))
                  progress_indicators) \<and>
   \<not> list_ex (\<lambda>word. is_in word (lower (str ''yes done, finished, all good'')))
         (long_words (lower (str ''Day 2: Stretch the lower back''))) \<and>
   snd (daily_progress_report 200 (str ''2024-01-02'') example_db
          \<lparr>message = str ''yes done, finished, all good'',
           mark_all_complete = False, specific_plan_condition = None\<rparr>) =
     map snd (confirmed_tasks (str ''2024-01-02'') (lower (str ''yes done, finished, all good''))
                (get_active_plans example_db)) \<and>
   confirmed_tasks (str ''2024-01-02'') (lower (str ''yes done, finished, all good''))
     (get_active_plans example_db) =
     [(str ''p1'', str ''Day 1: Gentle walking''), (str ''p1'', str ''Day 2: Stretch the lower back'')]"
proof -
  let ?request = "\<lparr>message = str ''yes done, finished, all good'',
       mark_all_complete = False, specific_plan_condition = None\<rparr>"
  have h1: "\<not> mark_all_complete ?request" by simp
  have h2: "\<not> is_in (str ''mark all'') (lower (message ?request))"
    by (simp add: is_in_def sublist_code(3) lower_def lower_cp_def str_def)
  have h3: "\<not> is_in (str ''all tasks'') (lower (message ?request))"
    by (simp add: is_in_def sublist_code(3) lower_def lower_cp_def str_def)
  have two: "2 \<le> length (filter (\<lambda>ind. is_in ind (lower (str ''yes done, finished, all good'')))
                  progress_indicators)"
    by (simp add: is_in_def sublist_code(3) lower_def lower_cp_def str_def progress_indicators_def)
  have none: "\<not> list_ex (\<lambda>word. is_in word (lower (str ''yes done, finished, all good'')))
         (long_words (lower (str ''Day 2: Stretch the lower back'')))"
    by (simp add: is_in_def sublist_code(3) lower_def lower_cp_def str_def long_words_def
        split_def is_space_def)
  have marked: "confirmed_tasks (str ''2024-01-02'') (lower (str ''yes done, finished, all good''))
     (get_active_plans example_db) =
     [(str ''p1'', str ''Day 1: Gentle walking''), (str ''p1'', str ''Day 2: Stretch the lower back'')]"
    by (simp add: report_defs example_defs)
  from individual_matching_marks [OF h1 h2 h3, of "str ''2024-01-02''" example_db 200]
  have "snd (daily_progress_report 200 (str ''2024-01-02'') example_db ?request) =
     map snd (confirmed_tasks (str ''2024-01-02'') (lower (str ''yes done, finished, all good''))
                (get_active_plans example_db))"
    by (simp add: Let_def)
  with h1 h2 h3 two none marked show ?thesis by simp
qed

text \<open>
  Claim C5 as stated fails: the message \<open>walking today\<close> contains a word longer than
  3 characters of the name of the task \<open>Day 1: Gentle walking\<close>, the task is not
  completed on the day of the report, and the report marks nothing, since the message
  holds no indicator.
\<close>

theorem individual_matching_counterexample:
  "spec_task_confirmed (lower (str ''walking today'')) (str ''Day 1: Gentle walking'') \<and>
   get_active_plans example_db = [view_of back_pain_plan] \<and>
   v_tasks (view_of back_pain_plan) ! 0 =
     \<lparr>task_name = str ''Day 1: Gentle walking'', progress = [str ''2024-01-01'']\<rparr> \<and>
   daily_progress_report 200 (str ''2024-01-02'') example_db
     \<lparr>message = str ''walking today'', mark_all_complete = False,
      specific_plan_condition = None\<rparr> = (example_db, [])"
  by (simp add: spec_task_confirmed_def report_defs example_defs)

section \<open>Properties of the analytics\<close>

lemma upt_7: "[0..<7] = [0, 1, 2, 3, 4, 5, 6]"
  by (simp add: upt_rec)

lemma entry_fold:
  "foldl (\<lambda>(total, breakdown) specialist_stat.
             let daily_words = words_on specialist_stat d
             in (total + daily_words,
                 if daily_words > 0
                 then breakdown(v_specialist_name specialist_stat \<mapsto> daily_words)
                 else breakdown)) (t, b) stats =
     (t + sum_list (map (\<lambda>s. words_on s d) stats),
      foldl (\<lambda>breakdown s. if words_on s d > 0 then breakdown(v_specialist_name s \<mapsto> words_on s d)
                             else breakdown) b stats)"
  by (induction stats arbitrary: t b) (simp_all add: Let_def add.assoc)

lemma breakdown_unchanged:
  "\<forall>s \<in> set stats. words_on s d \<le> 0 \<Longrightarrow>
     foldl (\<lambda>breakdown s. if words_on s d > 0 then breakdown(v_specialist_name s \<mapsto> words_on s d)
                            else breakdown) b stats = b"
  by (induction stats arbitrary: b) auto

lemma entry_for_date [simp]: "entry_date (entry_for display stats d) = d"
  by (simp add: entry_for_def split_beta)

lemma entry_for_total:
  "total_words (entry_for display stats d) = sum_list (map (\<lambda>s. words_on s d) stats)"
  by (simp add: entry_for_def entry_fold)

lemma entry_for_empty:
  "\<forall>s \<in> set stats. words_on s d \<le> 0 \<Longrightarrow> specialist_breakdown (entry_for display stats d) = Map.empty"
  by (simp add: entry_for_def entry_fold breakdown_unchanged)

text \<open>
  Claim C6, as the code has it. When at least one specialist counter is recorded, the
  series has exactly 7 entries, for the six days before today and today, the oldest
  first. Every day of the window is there: its entry totals the words the counters
  hold for its date, a counter without that date counting as 0, and lists no
  specialist when no counter has words for it.
\<close>

theorem time_spent_series:
  assumes "get_specialist_stats self None \<noteq> []"
  shows "let series = get_time_spent_last_7_days today ymd display self;
             stats = get_specialist_stats self None
         in length series = 7 \<and>
            map entry_date series =
              map ymd [today - 6, today - 5, today - 4, today - 3, today - 2, today - 1, today] \<and>
            (\<forall>e \<in> set series.
               total_words e = sum_list (map (\<lambda>s. words_on s (entry_date e)) stats) \<and>
               ((\<forall>s \<in> set stats. words_on s (entry_date e) \<le> 0) \<longrightarrow>
                  specialist_breakdown e = Map.empty))"
  using assms
  by (auto simp: get_time_spent_last_7_days_def Let_def upt_7 entry_for_total entry_for_empty)

lemmas analytics_defs = get_time_spent_last_7_days_def get_specialist_stats_def stat_of_def
  entry_for_def words_on_def upt_7 january_2024_def january_display_def ruby_stats_def
  warren_stats_def

theorem time_spent_series_witness:
  "get_specialist_stats example_db None \<noteq> [] \<and>
   length (get_time_spent_last_7_days 10 january_2024 january_display example_db) = 7 \<and>
   map entry_date (get_time_spent_last_7_days 10 january_2024 january_display example_db) =
     [str ''2024-01-04'', str ''2024-01-05'', str ''2024-01-06'', str ''2024-01-07'',
      str ''2024-01-08'', str ''2024-01-09'', str ''2024-01-10''] \<and>
   map total_words (get_time_spent_last_7_days 10 january_2024 january_display example_db) =
     [0, 90, 0, 0, 0, 105, 0]"
proof -
  have h: "get_specialist_stats example_db None \<noteq> []"
    by (simp add: get_specialist_stats_def ruby_stats_def warren_stats_def example_defs)
  have dates: "map january_2024 [10 - 6, 10 - 5, 10 - 4, 10 - 3, 10 - 2, 10 - 1, 10] =
     [str ''2024-01-04'', str ''2024-01-05'', str ''2024-01-06'', str ''2024-01-07'',
      str ''2024-01-08'', str ''2024-01-09'', str ''2024-01-10'']"
    by (simp add: january_2024_def str_def)
  have totals: "map total_words (get_time_spent_last_7_days 10 january_2024 january_display example_db) =
     [0, 90, 0, 0, 0, 105, 0]"
    by (simp add: analytics_defs example_defs)
  from time_spent_series [OF h, of 10 january_2024 january_display] h dates totals
  show ?thesis by (simp add: Let_def)
qed

text \<open>
  Claim C6 as stated fails for the state with no counter recorded: the guard
  \<^verbatim>\<open>if not stats: return []\<close> returns the empty series, not 7 entries filled with zero.
\<close>

theorem time_spent_no_counters_counterexample:
  "get_time_spent_last_7_days 10 january_2024 january_display
     (example_db\<lparr>specialist_stats_collection := Some []\<rparr>) = [] \<and>
   length (get_time_spent_last_7_days 10 january_2024 january_display
     (example_db\<lparr>specialist_stats_collection := Some []\<rparr>)) \<noteq> 7"
  by (simp add: get_time_spent_last_7_days_def get_specialist_stats_def)

section \<open>Properties of plan creation and extraction\<close>

lemma added_plans_same [simp]: "added_plans self self = []"
  by (simp add: added_plans_def split: option.splits)

lemma create_health_plan_added:
  "d \<in> set (added_plans self (fst (create_health_plan new_id dummy_id now self pname cond days tns)))
     \<Longrightarrow> timeline_days d = min days 7"
  by (auto simp: create_health_plan_def added_plans_def insert_one_def Let_def
      split: option.splits if_splits)

lemma create_and_store_plan_added:
  "d \<in> set (added_plans self (fst (create_and_store_plan new_id dummy_id now self pd)))
     \<Longrightarrow> timeline_days d = min (get_or (pd_timeline_days pd) 7) 7"
  by (auto simp: create_and_store_plan_def Let_def split_beta
      dest!: create_health_plan_added split: if_splits)

lemma process_message_for_plan_added:
  assumes "d \<in> set (added_plans self (fst (process_message_for_plan new_id dummy_id now self reply user_message)))"
  shows "timeline_days d \<le> 7"
proof -
  from assms obtain pd where
    "d \<in> set (added_plans self (fst (create_and_store_plan new_id dummy_id now self pd)))"
    by (auto simp: process_message_for_plan_def Let_def split_beta
        split: if_splits option.splits)
  then show ?thesis by (auto dest: create_and_store_plan_added)
qed

lemma extract_timeline:
  "findall_day_pattern ai_response \<noteq> [] \<Longrightarrow>
   extract_daily_tasks_from_response ai_response =
     (True, no_keys\<lparr>needs_plan := Some True,
        pd_condition := Some (guess_condition ai_response),
        pd_plan_name := Some (guess_plan_name ai_response),
        pd_timeline_days := Some (min (int (length (findall_day_pattern ai_response))) 7),
        pd_tasks := Some (map task_of_match (findall_day_pattern ai_response))\<rparr>)"
  by (simp add: extract_daily_tasks_from_response_def Let_def)

lemma extract_no_plan:
  "findall_day_pattern ai_response = [] \<Longrightarrow> \<not> fst (extract_daily_tasks_from_response ai_response)"
  by (simp add: extract_daily_tasks_from_response_def)

lemma extract_timeline_range:
  assumes "fst (extract_daily_tasks_from_response ai_response)"
  shows "\<exists>n. pd_timeline_days (snd (extract_daily_tasks_from_response ai_response)) = Some n \<and>
           1 \<le> n \<and> n \<le> 7"
proof -
  from assms have ne: "findall_day_pattern ai_response \<noteq> []"
    using extract_no_plan by blast
  then have "1 \<le> int (length (findall_day_pattern ai_response))"
    by (cases "findall_day_pattern ai_response") simp_all
  with extract_timeline[OF ne] show ?thesis by simp
qed

lemma process_ai_response_for_plan_added:
  assumes "d \<in> set (added_plans self (fst (process_ai_response_for_plan new_id dummy_id now self ai_response)))"
  shows "1 \<le> timeline_days d \<and> timeline_days d \<le> 7"
proof -
  let ?r = "extract_daily_tasks_from_response ai_response"
  from assms have has: "fst ?r"
    and d: "d \<in> set (added_plans self (fst (create_and_store_plan new_id dummy_id now self (snd ?r))))"
    by (auto simp: process_ai_response_for_plan_def Let_def split_beta
        split: if_splits option.splits)
  from extract_timeline_range[OF has] obtain n
    where "pd_timeline_days (snd ?r) = Some n" "1 \<le> n" "n \<le> 7" by blast
  with create_and_store_plan_added[OF d] show ?thesis by (simp add: get_or_def)
qed

text \<open>
  Claim C3, as the code has it. Every plan that a creation adds to the collection has
  the given number of days capped at 7: its \<open>timeline_days\<close> is at most 7 for every
  integer, and at least 1 when the integer given is at least 1. This holds for the
  direct creation and for the plans created from a reply of the plan chain; a plan
  created from the day blocks of an answer always has between 1 and 7 days.
\<close>

theorem persisted_timeline_days:
  "(\<forall>d \<in> set (added_plans self
             (fst (create_health_plan new_id dummy_id now self pname cond days task_names))).
      timeline_days d = min days 7 \<and> timeline_days d \<le> 7 \<and> (1 \<le> days \<longrightarrow> 1 \<le> timeline_days d)) \<and>
   (\<forall>d \<in> set (added_plans self
             (fst (process_message_for_plan new_id dummy_id now self reply user_message))).
      timeline_days d \<le> 7) \<and>
   (\<forall>d \<in> set (added_plans self
             (fst (process_ai_response_for_plan new_id dummy_id now self ai_response))).
      1 \<le> timeline_days d \<and> timeline_days d \<le> 7)"
  using create_health_plan_added process_message_for_plan_added
    process_ai_response_for_plan_added
  by (simp add: min_def) 

text \<open>
  Claim C4, as the code has it. The day-pattern path returns, whenever it reports a
  plan, a \<open>timeline_days\<close> between 1 and 7. The path through the plan chain returns the
  dictionary of the reply as it is, with the \<open>timeline_days\<close> the reply carries; the
  cap of 7 is applied when \<open>create_and_store_plan\<close> stores the plan.
\<close>

theorem extraction_timeline_days:
  "(fst (extract_daily_tasks_from_response ai_response) \<longrightarrow>
      (\<exists>n. pd_timeline_days (snd (extract_daily_tasks_from_response ai_response)) = Some n \<and>
           1 \<le> n \<and> n \<le> 7)) \<and>
   analyze_for_plan_generation (Json_object pd) = (get_or (needs_plan pd) False, pd) \<and>
   (\<forall>d \<in> set (added_plans self (fst (create_and_store_plan new_id dummy_id now self pd))).
      timeline_days d \<le> 7)"
  using extract_timeline_range create_and_store_plan_added
  by (auto simp: min_def)

text \<open>
  An answer in which the day pattern finds 9 blocks yields a plan with \<open>timeline_days\<close>
  7, the number of blocks capped at 7, and with the tasks of all 9 blocks.
\<close>

lemma nine_day_blocks_capped:
  assumes "length (findall_day_pattern ai_response) = 9"
  shows "fst (extract_daily_tasks_from_response ai_response) \<and>
         pd_timeline_days (snd (extract_daily_tasks_from_response ai_response)) = Some 7 \<and>
         map_option length (pd_tasks (snd (extract_daily_tasks_from_response ai_response))) = Some 9"
proof -
  from assms have "findall_day_pattern ai_response \<noteq> []" by auto
  from extract_timeline[OF this] assms show ?thesis by simp
qed

lemmas regex_defs = findall_day_pattern_def match_day_def match_length_def dot_tail_def
  day_ahead_def is_digit_def is_space_def ci_eq_def

lemmas title_defs = guess_plan_name_def guess_condition_def day_title_at_def title_at_def
  keyword_length_def condition_at_def match_pain_def match_lit_def find_one_def lower_def
  ci_eq_def

lemmas creation_defs = create_health_plan_def create_and_store_plan_def insert_one_def
  added_plans_def get_or_def no_keys_def

lemma stress_text_matches:
  "findall_day_pattern stress_text = [(str ''1'', str ''Breathe slowly. ''), (str ''2'', str ''Rest.'')]"
  by (simp add: stress_text_def str_def regex_defs)

lemma stress_text_extraction:
  "extract_daily_tasks_from_response stress_text =
     (True, no_keys\<lparr>needs_plan := Some True, pd_condition := Some (str ''stress''),
        pd_plan_name := Some (str ''3-Day Stress Plan''), pd_timeline_days := Some 2,
        pd_tasks := Some [str ''Day 1: Breathe slowly.'', str ''Day 2: Rest.'']\<rparr>)"
proof -
  have c: "guess_condition stress_text = str ''stress''"
    by (simp add: stress_text_def str_def title_defs lower_cp_def is_space_def)
  have n: "guess_plan_name stress_text = str ''3-Day Stress Plan''"
    by (simp add: stress_text_def str_def title_defs lower_cp_def is_space_def is_digit_def)
  have t: "task_of_match (str ''1'', str ''Breathe slowly. '') = str ''Day 1: Breathe slowly.''"
    "task_of_match (str ''2'', str ''Rest.'') = str ''Day 2: Rest.''"
    by (simp_all add: task_of_match_def strip_def split_def is_space_def str_def)
  show ?thesis
    by (simp add: extract_daily_tasks_from_response_def stress_text_matches c n t)
qed

lemma stress_text_stored:
  "map timeline_days (added_plans example_db
      (fst (process_ai_response_for_plan (str ''p3'') (str ''p4'') 300 example_db stress_text))) = [2]"
  by (simp add: process_ai_response_for_plan_def stress_text_extraction similar_plan_def
      get_active_plans_def find_sorted_def active_filter_def view_of_def long_words_def
      split_def is_space_def is_in_def sublist_code(3) lower_def lower_cp_def find_one_def
      creation_defs example_defs)

theorem persisted_timeline_days_witness:
  "map timeline_days (added_plans example_db
      (fst (create_health_plan (str ''p3'') (str ''p4'') 300 example_db (str ''Plan'')
              (str ''stress'') 9 [str ''Breathe'']))) = [7] \<and>
   map timeline_days (added_plans example_db
      (fst (process_ai_response_for_plan (str ''p3'') (str ''p4'') 300 example_db stress_text))) = [2] \<and>
   list_all (\<lambda>d. 1 \<le> timeline_days d \<and> timeline_days d \<le> 7)
     (added_plans example_db
        (fst (process_ai_response_for_plan (str ''p3'') (str ''p4'') 300 example_db stress_text)))"
proof -
  have direct: "map timeline_days (added_plans example_db
      (fst (create_health_plan (str ''p3'') (str ''p4'') 300 example_db (str ''Plan'')
              (str ''stress'') 9 [str ''Breathe'']))) = [7]"
    by (simp add: creation_defs example_defs)
  from persisted_timeline_days [of example_db "str ''p3''" "str ''p4''" 300 "str ''Plan''"
      "str ''stress''" 9 "[str ''Breathe'']" No_json_block "[]" stress_text]
  have "list_all (\<lambda>d. 1 \<le> timeline_days d \<and> timeline_days d \<le> 7)
     (added_plans example_db
        (fst (process_ai_response_for_plan (str ''p3'') (str ''p4'') 300 example_db stress_text)))"
    by (simp add: list_all_iff)
  with direct stress_text_stored show ?thesis by simp
qed

text \<open>
  Claim C3 as stated fails below 1: a direct creation with 0 days stores a plan of 0
  days, outside the interval from 1 to 7.
\<close>

theorem persisted_timeline_days_counterexample:
  "map timeline_days (added_plans example_db
      (fst (create_health_plan (str ''p3'') (str ''p4'') 300 example_db (str ''Plan'')
              (str ''stress'') 0 [str ''Breathe'']))) = [0]"
  by (simp add: creation_defs example_defs)

theorem extraction_timeline_days_witness:
  "fst (extract_daily_tasks_from_response stress_text) \<and>
   pd_timeline_days (snd (extract_daily_tasks_from_response stress_text)) = Some 2 \<and>
   analyze_for_plan_generation (Json_object two_week_plan) = (True, two_week_plan) \<and>
   map timeline_days (added_plans example_db
      (fst (create_and_store_plan (str ''p3'') (str ''p4'') 300 example_db two_week_plan))) = [7]"
proof -
  have stored: "map timeline_days (added_plans example_db
      (fst (create_and_store_plan (str ''p3'') (str ''p4'') 300 example_db two_week_plan))) = [7]"
    by (simp add: two_week_plan_def creation_defs example_defs)
  from extraction_timeline_days [of stress_text two_week_plan example_db]
  have "analyze_for_plan_generation (Json_object two_week_plan) =
      (get_or (needs_plan two_week_plan) False, two_week_plan)"
    by simp
  then have "analyze_for_plan_generation (Json_object two_week_plan) = (True, two_week_plan)"
    by (simp add: two_week_plan_def get_or_def no_keys_def)
  with stored show ?thesis by (simp add: stress_text_extraction)
qed

text \<open>
  Claim C4 as stated fails on the path through the plan chain: for a reply whose
  dictionary asks for 14 days, \<open>analyze_for_plan_generation\<close> returns \<open>needs_plan\<close> true
  and a \<open>plan_data\<close> with \<open>timeline_days\<close> 14.
\<close>

theorem extraction_timeline_days_counterexample:
  "fst (analyze_for_plan_generation (Json_object two_week_plan)) \<and>
   pd_timeline_days (snd (analyze_for_plan_generation (Json_object two_week_plan))) = Some 14 \<and>
   \<not> (14::int) \<le> 7"
  by (simp add: two_week_plan_def get_or_def no_keys_def)

lemma nine_days_text_matches: "length (findall_day_pattern nine_days_text) = 9"
  by (simp add: nine_days_text_def str_def regex_defs)

lemma nine_days_text_capped:
  "length (findall_day_pattern nine_days_text) = 9 \<and>
   fst (extract_daily_tasks_from_response nine_days_text) \<and>
   pd_timeline_days (snd (extract_daily_tasks_from_response nine_days_text)) = Some 7 \<and>
   map_option length (pd_tasks (snd (extract_daily_tasks_from_response nine_days_text))) = Some 9"
  using nine_day_blocks_capped [OF nine_days_text_matches] nine_days_text_matches by simp

lemma nine_lines_text_matches: "length (findall_day_pattern nine_lines_text) = 1"
  by (simp add: nine_lines_text_def str_def regex_defs)

text \<open>
  Claim C9. An answer with 9 distinct day blocks should give a plan of 7 days. On the
  answer of nine lines without a full stop the day pattern finds a single block: its
  part \<^verbatim>\<open>[^.]+\<close> takes the text up to the next full stop, here the whole answer with
  the eight day markers that follow. The extraction reports a plan
  of 1 day with 1 task.
\<close>

theorem nine_lines_one_block:
  "map fst (findall_day_pattern nine_lines_text) = [str ''1''] \<and>
   fst (extract_daily_tasks_from_response nine_lines_text) \<and>
   pd_timeline_days (snd (extract_daily_tasks_from_response nine_lines_text)) = Some 1 \<and>
   map_option length (pd_tasks (snd (extract_daily_tasks_from_response nine_lines_text))) = Some 1"
proof -
  have day: "map fst (findall_day_pattern nine_lines_text) = [str ''1'']"
    by (simp add: nine_lines_text_def str_def regex_defs)
  from nine_lines_text_matches have "findall_day_pattern nine_lines_text \<noteq> []" by auto
  from extract_timeline[OF this] nine_lines_text_matches day show ?thesis by simp
qed

section \<open>Deactivated plans\<close>




















subsection \<open>The progress check of utils.py on the same messages\<close>

text \<open>
  \<open>process_progress_from_ai_response\<close> has no rule for two indicators: the generic
  confirmation marks nothing there, and a message that names a task and holds a
  completion word marks that task.
\<close>

lemmas progress_check_defs = process_progress_from_ai_response_def completion_words_def
  count_today_def get_active_plans_def find_sorted_def active_filter_def view_of_def
  lower_def lower_cp_def is_in_def sublist_code(3) long_words_def split_def is_space_def
  update_task_progress_def find_one_def id_user_filter_def id_filter_def

lemma progress_check_generic_confirmation:
  "process_progress_from_ai_response 200 (str ''2024-01-02'') example_db (str ''Well done!'')
     (str ''yes done, finished, all good'') = (example_db, 0)"
  by (simp add: progress_check_defs example_defs)

lemma progress_check_named_task:
  "snd (process_progress_from_ai_response 200 (str ''2024-01-02'') example_db (str ''Well done!'')
     (str ''I did my walking'')) = 1"
  by (simp add: progress_check_defs example_defs)

end
